theory Spec2Isabelle
  imports Main "HOL-Library.Word" "HOL-Library.Sublist" "HOL-Library.AList"
begin

section \<open>Exceptions\<close>

text \<open>
  A raised Python exception is a value: its class name, the text \<open>str(e)\<close> gives (for
  a \<open>KeyError\<close> the key in quotes), and the exception it was raised \<open>from\<close>
  (\<open>__cause__\<close>). The model covers the classes
  below \<open>Exception\<close>, which is what \<open>except Exception\<close> catches. A function that may
  raise returns \<open>exn + 'a\<close>, with \<open>Inl\<close> for the exception.
\<close>

datatype exn = Exn (exn_class: string) (exn_text: string) (exn_cause: "exn option")

definition OSError :: "string \<Rightarrow> exn" where
  "OSError msg = Exn ''OSError'' msg None"

definition raise_from :: "exn \<Rightarrow> exn \<Rightarrow> exn" where
  \<comment> \<open>\<open>raise e from c\<close>\<close>
  "raise_from e c = Exn (exn_class e) (exn_text e) (Some c)"

section \<open>Resolving the remote backend: \<open>get_s3_fs\<close>\<close>

text \<open>\<open>os.environ\<close>: the process environment, a dictionary from names to values.\<close>

type_synonym environ = "string \<rightharpoonup> string"

definition environ_getitem :: "environ \<Rightarrow> string \<Rightarrow> exn + string" where
  \<comment> \<open>\<open>os.environ[name]\<close>\<close>
  "environ_getitem env name =
     (case env name of
        None \<Rightarrow> Inl (Exn ''KeyError'' ([CHR 0x27] @ name @ [CHR 0x27]) None)
      | Some v \<Rightarrow> Inr v)"

definition os_getenv :: "environ \<Rightarrow> string \<Rightarrow> string \<Rightarrow> string" where
  \<comment> \<open>\<open>os.getenv(name, default)\<close>\<close>
  "os_getenv env name dflt = (case env name of None \<Rightarrow> dflt | Some v \<Rightarrow> v)"

text \<open>The keyword arguments \<open>get_s3_fs\<close> gives to \<open>s3fs.S3FileSystem\<close>.\<close>

record s3_args =
  s3_anon :: bool
  s3_key :: string
  s3_secret :: string
  s3_region_name :: string
  s3_asynchronous :: bool

text \<open>
  A filesystem handle: \<open>AsyncFileSystemWrapper(LocalFileSystem(auto_mkdir=...))\<close> or an
  \<open>S3FileSystem\<close>.
\<close>

datatype filesystem = AsyncLocalFileSystem bool | S3FileSystem s3_args

definition missing_variable :: "string \<Rightarrow> exn" where
  "missing_variable var =
     OSError (''Cannot use provided S3 workdir due to missing ''
              @ ''required authorization environment variable '' @ [CHR 0x27] @ var @ [CHR 0x27])"

text \<open>The loop \<open>for var in [...]: if var not in os.environ: raise OSError(...)\<close>.\<close>

fun check_required :: "environ \<Rightarrow> string list \<Rightarrow> exn option" where
  "check_required env [] = None"
| "check_required env (var # vars) =
     (if env var = None then Some (missing_variable var) else check_required env vars)"

definition get_s3_fs :: "environ \<Rightarrow> exn + filesystem" where
  "get_s3_fs env =
     (case check_required env [''AWS_ACCESS_KEY_ID'', ''AWS_SECRET_ACCESS_KEY''] of
        Some e \<Rightarrow> Inl e
      | None \<Rightarrow>
          (case environ_getitem env ''AWS_ACCESS_KEY_ID'' of
             Inl e \<Rightarrow> Inl e
           | Inr k \<Rightarrow>
               (case environ_getitem env ''AWS_SECRET_ACCESS_KEY'' of
                  Inl e \<Rightarrow> Inl e
                | Inr s \<Rightarrow>
                    Inr (S3FileSystem
                      \<lparr>s3_anon = False, s3_key = k, s3_secret = s,
                       s3_region_name = os_getenv env ''AWS_REGION'' ''eu-west-1'',
                       s3_asynchronous = True\<rparr>))))"

section \<open>Attribute values\<close>

text \<open>
  The values an attribute dictionary holds. A Python \<open>float\<close> and a numpy floating
  scalar carry their number as the binary64 pattern of its value (every half and single
  precision number is a double precision number, so \<open>float(x)\<close> keeps the pattern). A
  dictionary is its list of items in insertion order, keys distinct. \<open>'a\<close> stands for
  \<open>pyresample.geometry.AreaDefinition\<close> objects, \<open>'d\<close> for \<open>datetime.datetime\<close> objects.
  Values are compared by content: two attributes do not share one mutable object.
\<close>

datatype np_floating = Float16 | Float32 | Float64

datatype ('a, 'd) pyval =
    PNone
  | PStr string
  | PInt int
  | PFloat "64 word"
  | PNpFloating np_floating "64 word"
  | PBool bool
  | PNpBool bool
  | PList "('a, 'd) pyval list"
  | PDict "(string \<times> ('a, 'd) pyval) list"
  | PArea 'a
  | PDatetime 'd

type_synonym ('a, 'd) attrs = "(string \<times> ('a, 'd) pyval) list"

section \<open>Arrays, datasets and the calls into the libraries\<close>

text \<open>
  What the model keeps of an \<open>xarray.DataArray\<close>: its attributes, the length of each
  dimension (\<open>da.sizes\<close>), the lengths of the blocks along each chunked dimension
  (\<open>da.chunksizes\<close>), and its coordinates.
\<close>

datatype coord_value = StrValue string | IntValue int | BytesValue string

record ('a, 'd) data_array =
  da_attrs :: "('a, 'd) attrs"
  da_sizes :: "(string \<times> nat) list"
  da_chunks :: "(string \<times> nat list) list"
  da_coords :: "(string \<times> coord_value list) list"

record ('a, 'd) dataset =
  ds_attrs :: "('a, 'd) attrs"
  ds_data_vars :: "(string \<times> ('a, 'd) data_array) list"

text \<open>
  The keyword arguments of one \<open>Dataset.to_zarr\<close> call on a
  \<open>zarr.storage.FsspecStore(fs=..., path=...)\<close>. A keyword that is not passed is \<open>None\<close>.
\<close>

record extra_kwargs =
  kw_append_dim :: "string option"
  kw_encoding :: "(string \<times> (string \<times> string) list) list option"

record ('a, 'd) zarr_call =
  zc_dataset :: "('a, 'd) dataset"
  zc_store_fs :: filesystem
  zc_store_path :: string
  zc_compute :: bool
  zc_mode :: string
  zc_consolidated :: bool
  zc_kwargs :: extra_kwargs

text \<open>
  The behaviour of the libraries and of the storage behind them, which the source does
  not fix: what each call returns, and whether it raises.
  \<^item> \<open>yaml_dump\<close>: \<open>yaml.dump(value)\<close>;
  \<^item> \<open>area_dump\<close>: \<open>AreaDefinition.dump()\<close>;
  \<^item> \<open>isoformat\<close>: \<open>datetime.isoformat()\<close>;
  \<^item> \<open>np_str\<close>: the string numpy's \<open>astype(str)\<close> makes of one coordinate value;
  \<^item> \<open>fs_exists\<close>: \<open>fs.exists(path)\<close>;
  \<^item> \<open>to_zarr\<close>: the exception the commit of a \<open>to_zarr\<close> call raises, if any;
  \<^item> \<open>open_zarr\<close>: \<open>xr.open_zarr(FsspecStore(fs, path), consolidated=True)\<close>;
  \<^item> \<open>to_zip\<close>: \<open>ds.to_zarr(store=ZipStore(path=fsrc.name, mode="w"))\<close>, giving the bytes
    a read of the temporary file through \<open>fsrc\<close> then finds (whether they are a
    finished archive is the library's matter);
  \<^item> \<open>fs_open_wb\<close>: the exception that \<open>fs.open(path, "wb")\<close>, or entering the file it
    returns in the \<open>with\<close> statement, raises, if any;
  \<^item> \<open>fdst_write\<close>: the exception a write to the destination raises, if any, given the
    number of bytes written before it;
  \<^item> \<open>fdst_close\<close>: the exception the close of the destination raises, if any.
  What the backend makes of the files that are opened, written and closed is not part
  of it: the model of \<open>create_latest_zip\<close> lists the operations, and says nothing of
  their effect.
\<close>

record ('a, 'd) libs =
  yaml_dump :: "('a, 'd) pyval \<Rightarrow> exn + string"
  area_dump :: "'a \<Rightarrow> exn + string"
  isoformat :: "'d \<Rightarrow> string"
  np_str :: "coord_value \<Rightarrow> string"
  fs_exists :: "filesystem \<Rightarrow> string \<Rightarrow> exn + bool"
  to_zarr :: "('a, 'd) zarr_call \<Rightarrow> exn option"
  open_zarr :: "filesystem \<Rightarrow> string \<Rightarrow> exn + ('a, 'd) dataset"
  to_zip :: "('a, 'd) dataset \<Rightarrow> exn + 8 word list"
  fs_open_wb :: "filesystem \<Rightarrow> string \<Rightarrow> exn option"
  fdst_write :: "nat \<Rightarrow> exn option"
  fdst_close :: "exn option"

section \<open>Attribute normalization (\<open>write_to_zarr\<close>, the loop over \<open>da.attrs.items()\<close>)\<close>

text \<open>
  The inner loop \<open>for inner_key in value: ...\<close>: the value under each key of the nested
  dictionary is replaced by \<open>float(inner_value)\<close> when it is an \<open>np.floating\<close>.
\<close>

fun widen_value :: "('a, 'd) pyval \<Rightarrow> ('a, 'd) pyval" where
  "widen_value (PNpFloating p x) = PFloat x"
| "widen_value inner_value = inner_value"

definition widen_floats :: "('a, 'd) attrs \<Rightarrow> ('a, 'd) attrs" where
  "widen_floats d = map (\<lambda>(inner_key, inner_value). (inner_key, widen_value inner_value)) d"

definition str_bool :: "bool \<Rightarrow> string" where
  \<comment> \<open>\<open>str(value)\<close> of a \<open>bool\<close> or an \<open>np.bool_\<close>\<close>
  "str_bool b = (if b then ''True'' else ''False'')"

text \<open>
  The body of the outer loop: the value stored back under \<open>key\<close>. The four \<open>isinstance\<close>
  tests of the source are on the classes \<open>dict\<close>, \<open>bool | np.bool_\<close>, \<open>AreaDefinition\<close>
  and \<open>datetime\<close>, which no value shares, so at most one branch assigns.
\<close>

fun normalize_value :: "('a, 'd) libs \<Rightarrow> ('a, 'd) pyval \<Rightarrow> exn + ('a, 'd) pyval" where
  "normalize_value L (PDict d) =
     (case yaml_dump L (PDict (widen_floats d)) of Inl e \<Rightarrow> Inl e | Inr s \<Rightarrow> Inr (PStr s))"
| "normalize_value L (PBool b) = Inr (PStr (str_bool b))"
| "normalize_value L (PNpBool b) = Inr (PStr (str_bool b))"
| "normalize_value L (PArea a) =
     (case area_dump L a of Inl e \<Rightarrow> Inl e | Inr s \<Rightarrow> Inr (PStr s))"
| "normalize_value L (PDatetime t) = Inr (PStr (isoformat L t))"
| "normalize_value L v = Inr v"

text \<open>
  The outer loop, in the order of the items. Assigning \<open>da.attrs[key]\<close> for the key
  being visited replaces that item's value; the first call that raises ends the loop.
\<close>

fun normalize_attrs :: "('a, 'd) libs \<Rightarrow> ('a, 'd) attrs \<Rightarrow> exn + ('a, 'd) attrs" where
  "normalize_attrs L [] = Inr []"
| "normalize_attrs L ((key, v) # items) =
     (case normalize_value L v of
        Inl e \<Rightarrow> Inl e
      | Inr v' \<Rightarrow>
          (case normalize_attrs L items of
             Inl e \<Rightarrow> Inl e
           | Inr items' \<Rightarrow> Inr ((key, v') # items')))"

text \<open>The kinds of value no branch of the loop body tests for.\<close>

fun other_kind :: "('a, 'd) pyval \<Rightarrow> bool" where
  "other_kind (PDict d) = False"
| "other_kind (PBool b) = False"
| "other_kind (PNpBool b) = False"
| "other_kind (PArea a) = False"
| "other_kind (PDatetime t) = False"
| "other_kind v = True"

text \<open>
  A reduced-precision float (\<open>np.float16\<close>, \<open>np.float32\<close>) occurring anywhere inside a
  value.
\<close>

fun has_reduced_float :: "('a, 'd) pyval \<Rightarrow> bool" where
  "has_reduced_float (PNpFloating p x) = (p \<noteq> Float64)"
| "has_reduced_float (PList vs) = list_ex has_reduced_float vs"
| "has_reduced_float (PDict d) = list_ex (\<lambda>kv. has_reduced_float (snd kv)) d"
| "has_reduced_float v = False"

section \<open>The xarray calls of \<open>write_to_zarr\<close>\<close>

text \<open>
  Library behaviour (xarray on dask). \<open>da.chunk(spec)\<close> raises a \<open>ValueError\<close> when
  \<open>spec\<close> names a dimension the array does not have (its text is shortened here).
  Otherwise a dimension of length \<open>n\<close> that \<open>spec\<close> gives the size \<open>c\<close> is cut into
  blocks: one block of length \<open>n\<close> for the size \<open>-1\<close> and for an empty dimension;
  for a size of at least 1, blocks of length \<open>c\<close> followed by one shorter block when \<open>c\<close>
  does not divide \<open>n\<close>. The source passes the sizes \<open>1\<close> and \<open>-1\<close> only; what dask does
  with a size of 0 or below \<open>-1\<close> is not modelled (\<open>dask_blocks\<close> gives one block
  there). A dimension \<open>spec\<close> does not name keeps its blocks, or is one block when it
  had none.
\<close>

definition dask_blocks :: "int \<Rightarrow> nat \<Rightarrow> nat list" where
  "dask_blocks c n =
     (if c = - 1 \<or> n = 0 \<or> c < 1 then [n]
      else replicate (n div nat c) (nat c) @ (if n mod nat c = 0 then [] else [n mod nat c]))"

definition da_chunk ::
  "(string \<times> int) list \<Rightarrow> ('a, 'd) data_array \<Rightarrow> exn + ('a, 'd) data_array" where
  "da_chunk spec da =
     (case filter (\<lambda>(dim, c). map_of (da_sizes da) dim = None) spec of
        (dim, c) # _ \<Rightarrow>
          Inl (Exn ''ValueError'' (''chunks keys not found in data dimensions: '' @ dim) None)
      | [] \<Rightarrow>
          Inr (da\<lparr>da_chunks :=
                 map (\<lambda>(dim, n).
                        (dim, case map_of spec dim of
                                Some c \<Rightarrow> dask_blocks c n
                              | None \<Rightarrow> (case map_of (da_chunks da) dim of
                                           Some bs \<Rightarrow> bs
                                         | None \<Rightarrow> [n])))
                     (da_sizes da)\<rparr>))"

text \<open>
  \<open>da.coords[name]\<close>: the coordinate of that name; for a dimension that has no
  coordinate, the default index \<open>0, 1, ..., n - 1\<close>; a \<open>KeyError\<close> when the array has
  neither.
\<close>

definition coords_getitem :: "('a, 'd) data_array \<Rightarrow> string \<Rightarrow> exn + coord_value list" where
  "coords_getitem da name =
     (case map_of (da_coords da) name of
        Some vs \<Rightarrow> Inr vs
      | None \<Rightarrow>
          (case map_of (da_sizes da) name of
             Some n \<Rightarrow> Inr (map (\<lambda>i. IntValue (int i)) [0..<n])
           | None \<Rightarrow> Inl (Exn ''KeyError'' ([CHR 0x27] @ name @ [CHR 0x27]) None)))"

definition coords_setitem ::
  "('a, 'd) data_array \<Rightarrow> string \<Rightarrow> coord_value list \<Rightarrow> ('a, 'd) data_array" where
  \<comment> \<open>\<open>da.coords[name] = vs\<close>\<close>
  "coords_setitem da name vs = da\<lparr>da_coords := AList.update name vs (da_coords da)\<rparr>"

definition astype_str :: "('a, 'd) libs \<Rightarrow> coord_value list \<Rightarrow> coord_value list" where
  \<comment> \<open>\<open>.astype(str)\<close>: every value becomes a string\<close>
  "astype_str L vs =
     map (\<lambda>v. case v of StrValue s \<Rightarrow> StrValue s | _ \<Rightarrow> StrValue (np_str L v)) vs"

definition to_dataset :: "string \<Rightarrow> bool \<Rightarrow> ('a, 'd) data_array \<Rightarrow> ('a, 'd) dataset" where
  \<comment> \<open>\<open>da.to_dataset(name=..., promote_attrs=...)\<close>\<close>
  "to_dataset name promote_attrs da =
     \<lparr>ds_attrs = (if promote_attrs then da_attrs da else []), ds_data_vars = [(name, da)]\<rparr>"

section \<open>\<open>write_to_zarr\<close>\<close>

text \<open>
  The function returns what Python returns or raises, and beside it the \<open>to_zarr\<close> calls
  it made on the backing store, in order: they are its effect.

  \<open>write_body\<close> is the body of the \<open>try\<close> statement.
\<close>

definition write_body ::
  "('a, 'd) libs \<Rightarrow> filesystem \<Rightarrow> string \<Rightarrow> string \<Rightarrow> extra_kwargs \<Rightarrow> ('a, 'd) data_array
     \<Rightarrow> (exn + unit) \<times> ('a, 'd) zarr_call list" where
  "write_body L fs path mode extra_kwargs da =
     (case da_chunk [(''time'', 1), (''x_geostationary'', - 1), (''y_geostationary'', - 1),
                     (''variable'', 1)] da of
        Inl e \<Rightarrow> (Inl e, [])
      | Inr da1 \<Rightarrow>
          (case coords_getitem da1 ''variable'' of
             Inl e \<Rightarrow> (Inl e, [])
           | Inr variable \<Rightarrow>
               let da2 = coords_setitem da1 ''variable'' (astype_str L variable);
                   ds = to_dataset ''data'' True da2;
                   call = \<lparr>zc_dataset = ds, zc_store_fs = fs, zc_store_path = path,
                           zc_compute = True, zc_mode = mode, zc_consolidated = True,
                           zc_kwargs = extra_kwargs\<rparr>
               in (case to_zarr L call of
                     Some e \<Rightarrow> (Inl e, [call])
                   | None \<Rightarrow> (Inr (), [call]))))"

definition write_to_zarr ::
  "('a, 'd) libs \<Rightarrow> environ \<Rightarrow> ('a, 'd) data_array \<Rightarrow> string
     \<Rightarrow> (exn + unit) \<times> ('a, 'd) zarr_call list" where
  "write_to_zarr L env da path =
     (case (if prefix ''s3://'' path then get_s3_fs env else Inr (AsyncLocalFileSystem True)) of
        Inl e \<Rightarrow> (Inl e, [])
      | Inr fs \<Rightarrow>
          (case fs_exists L fs path of
             Inl e \<Rightarrow> (Inl e, [])
           | Inr ex \<Rightarrow>
               let mode = (if ex then ''a'' else ''w'');
                   extra_kwargs =
                     (if mode = ''a''
                      then \<lparr>kw_append_dim = Some ''time'', kw_encoding = None\<rparr>
                      else \<lparr>kw_append_dim = None,
                            kw_encoding =
                              Some [(''time'', [(''units'', ''nanoseconds since 1970-01-01'')])]\<rparr>)
               in (case normalize_attrs L (da_attrs da) of
                     Inl e \<Rightarrow> (Inl e, [])
                   | Inr attrs' \<Rightarrow>
                       (case write_body L fs path mode extra_kwargs (da\<lparr>da_attrs := attrs'\<rparr>) of
                          (Inl e, calls) \<Rightarrow>
                            (Inl (raise_from
                                    (OSError (''Error writing dataset to zarr store '' @ path
                                              @ '': '' @ exn_text e)) e), calls)
                        | (Inr u, calls) \<Rightarrow> (Inr (), calls)))))"

section \<open>\<open>create_latest_zip\<close>\<close>

definition rsplit1 :: "char \<Rightarrow> string \<Rightarrow> string list" where
  \<comment> \<open>\<open>s.rsplit(sep, 1)\<close> for a separator of one character\<close>
  "rsplit1 sep s =
     (if sep \<in> set s
      then [rev (tl (dropWhile (\<lambda>c. c \<noteq> sep) (rev s))), rev (takeWhile (\<lambda>c. c \<noteq> sep) (rev s))]
      else [s])"

definition getitem0 :: "'x list \<Rightarrow> exn + 'x" where
  \<comment> \<open>\<open>xs[0]\<close>\<close>
  "getitem0 xs = (case xs of [] \<Rightarrow> Inl (Exn ''IndexError'' ''list index out of range'' None)
                  | x # _ \<Rightarrow> Inr x)"

text \<open>
  \<open>shutil.copyfileobj(fsrc, fdst, length)\<close>: blocks of \<open>length\<close> bytes are read from the
  source and written to the destination until a read returns nothing. The result is the
  list of the blocks written and the exception that ended the copy, if any; \<open>off\<close>
  counts the bytes written before. A write that raises is taken to write nothing.
\<close>

function copyfileobj ::
  "(nat \<Rightarrow> exn option) \<Rightarrow> nat \<Rightarrow> 8 word list \<Rightarrow> nat \<Rightarrow> 8 word list list \<times> exn option" where
  "copyfileobj wr len src off =
     (if take len src = [] then ([], None)
      else (case wr off of
              Some e \<Rightarrow> ([], Some e)
            | None \<Rightarrow>
                (case copyfileobj wr len (drop len src) (off + length (take len src)) of
                   (blocks, r) \<Rightarrow> (take len src # blocks, r))))"
  by pat_completeness auto
termination
  by (relation "measure (\<lambda>(wr, len, src, off). length src)") auto

declare copyfileobj.simps [simp del]

text \<open>
  The operations on the files of the backend. \<open>create_latest_zip\<close> returns, beside what
  Python returns or raises, the operations that were carried out, in order: a call
  that raised is not among them. The \<open>with\<close> statement creates the temporary file and
  then opens the destination, both before the \<open>try\<close> statement is entered, and closes
  the destination on every way out; an exception of that close replaces the one on its
  way. Creating and closing the temporary file are taken not to raise. \<open>zip_error\<close> is
  the exception the \<open>except\<close> clause raises.
\<close>

datatype file_op = OpenWb string | WriteBlock string "8 word list" | CloseFile string

definition zip_error :: "string \<Rightarrow> exn \<Rightarrow> exn" where
  "zip_error zippath e =
     raise_from (OSError (''Error writing dataset to zip store '' @ [CHR 0x27] @ zippath
                          @ [CHR 0x27] @ '': '' @ exn_text e)) e"

definition create_latest_zip ::
  "('a, 'd) libs \<Rightarrow> environ \<Rightarrow> string \<Rightarrow> (exn + string) \<times> file_op list" where
  "create_latest_zip L env zarr_path =
     (case (if prefix ''s3://'' zarr_path then get_s3_fs env
            else Inr (AsyncLocalFileSystem True)) of
        Inl e \<Rightarrow> (Inl e, [])
      | Inr fs \<Rightarrow>
          (case open_zarr L fs zarr_path of
             Inl e \<Rightarrow> (Inl e, [])
           | Inr ds \<Rightarrow>
               (case getitem0 (rsplit1 CHR ''/'' zarr_path) of
                  Inl e \<Rightarrow> (Inl e, [])
                | Inr parent \<Rightarrow>
                    let zippath = parent @ ''/latest.zarr.zip'' in
                    (case fs_open_wb L fs zippath of
                       Some e \<Rightarrow> (Inl e, [])
                     | None \<Rightarrow>
                         let (body, blocks) =
                               (case to_zip L ds of
                                  Inl e \<Rightarrow> (Inl (zip_error zippath e), [])
                                | Inr staged \<Rightarrow>
                                    (case copyfileobj (fdst_write L) (16 * 1024) staged 0 of
                                       (blocks, Some e) \<Rightarrow> (Inl (zip_error zippath e), blocks)
                                     | (blocks, None) \<Rightarrow> (Inr zippath, blocks)));
                             ops = OpenWb zippath # map (WriteBlock zippath) blocks
                         in (case fdst_close L of
                               Some e \<Rightarrow> (Inl e, ops)
                             | None \<Rightarrow> (body, ops @ [CloseFile zippath]))))))"

section \<open>Notions of the specification\<close>

text \<open>
  A nested dictionary with its numbers widened: the same keys in the same order, each
  numpy floating scalar replaced by the Python float of the same number, every other
  value as it was.
\<close>

definition widened :: "('a, 'd) attrs \<Rightarrow> ('a, 'd) attrs \<Rightarrow> bool" where
  "widened d d' =
     list_all2 (\<lambda>(k, v) (k', v'). k' = k \<and>
                  (case v of PNpFloating p x \<Rightarrow> v' = PFloat x | _ \<Rightarrow> v' = v)) d d'"

text \<open>A coordinate value of string type.\<close>

fun is_string_value :: "coord_value \<Rightarrow> bool" where
  "is_string_value (StrValue s) = True"
| "is_string_value v = False"




section \<open>A library in which no call raises\<close>

text \<open>The decimal numeral of a number, which \<open>astype(str)\<close> makes of an integer.\<close>

function decimal :: "nat \<Rightarrow> string" where
  "decimal n =
     (if n < 10 then [''0123456789'' ! n]
      else decimal (n div 10) @ [''0123456789'' ! (n mod 10)])"
  by pat_completeness auto
termination
  by (relation "measure id") auto

declare decimal.simps [simp del]

definition str_int :: "int \<Rightarrow> string" where
  "str_int i = (if i < 0 then CHR ''-'' # decimal (nat (- i)) else decimal (nat i))"

definition quiet_libs :: "(string, string) libs" where
  "quiet_libs =
     \<lparr>yaml_dump = (\<lambda>v. Inr ''{}''), area_dump = (\<lambda>a. Inr a), isoformat = (\<lambda>t. t),
      np_str = (\<lambda>v. case v of StrValue s \<Rightarrow> s | IntValue i \<Rightarrow> str_int i | BytesValue s \<Rightarrow> s),
      fs_exists = (\<lambda>fs p. Inr False), to_zarr = (\<lambda>c. None),
      open_zarr = (\<lambda>fs p. Inr \<lparr>ds_attrs = [], ds_data_vars = []\<rparr>),
      to_zip = (\<lambda>ds. Inr [80, 75, 5, 6]), fs_open_wb = (\<lambda>fs p. None),
      fdst_write = (\<lambda>n. None), fdst_close = None\<rparr>"

text \<open>An array of one time step, two channels and 100 by 100 pixels.\<close>

definition example_da :: "(string, string) data_array" where
  "example_da =
     \<lparr>da_attrs = [(''platform'', PStr ''MSG3''), (''calibrated'', PBool True),
                  (''orbital_parameters'', PDict [(''height'', PNpFloating Float32 0x4041800000000000)])],
      da_sizes = [(''time'', 1), (''y_geostationary'', 100), (''x_geostationary'', 100),
                  (''variable'', 2)],
      da_chunks = [],
      da_coords = [(''variable'', [StrValue ''VIS006'', BytesValue ''IR_016''])]\<rparr>"

section \<open>Properties of \<open>get_s3_fs\<close>\<close>

text \<open>
  C8. When a required credential variable is absent from the environment, \<open>get_s3_fs\<close>
  raises an \<open>OSError\<close> whose text names one variable, in quotes, and that variable is the
  absent one: \<open>AWS_ACCESS_KEY_ID\<close> when it is absent (whether or not the secret key is
  set), \<open>AWS_SECRET_ACCESS_KEY\<close> when only it is absent. When both are set and
  \<open>AWS_REGION\<close> is not, the handle is built with the two values and the region
  \<open>eu-west-1\<close>.
\<close>

theorem get_s3_fs_credentials:
  "(env ''AWS_ACCESS_KEY_ID'' = None \<longrightarrow>
      get_s3_fs env = Inl (Exn ''OSError''
        (''Cannot use provided S3 workdir due to missing required authorization environment variable ''
          @ [CHR 0x27] @ ''AWS_ACCESS_KEY_ID'' @ [CHR 0x27]) None))
   \<and> (env ''AWS_ACCESS_KEY_ID'' \<noteq> None \<and> env ''AWS_SECRET_ACCESS_KEY'' = None \<longrightarrow>
      get_s3_fs env = Inl (Exn ''OSError''
        (''Cannot use provided S3 workdir due to missing required authorization environment variable ''
          @ [CHR 0x27] @ ''AWS_SECRET_ACCESS_KEY'' @ [CHR 0x27]) None))
   \<and> (env ''AWS_ACCESS_KEY_ID'' = Some k \<and> env ''AWS_SECRET_ACCESS_KEY'' = Some s
        \<and> env ''AWS_REGION'' = None \<longrightarrow>
      get_s3_fs env = Inr (S3FileSystem
        \<lparr>s3_anon = False, s3_key = k, s3_secret = s, s3_region_name = ''eu-west-1'',
         s3_asynchronous = True\<rparr>))"
  by (auto simp: get_s3_fs_def missing_variable_def OSError_def environ_getitem_def
      os_getenv_def)

theorem get_s3_fs_credentials_witness:
  "(Map.empty :: environ) ''AWS_ACCESS_KEY_ID'' = None
   \<and> get_s3_fs Map.empty = Inl (Exn ''OSError''
        (''Cannot use provided S3 workdir due to missing required authorization environment variable ''
          @ [CHR 0x27] @ ''AWS_ACCESS_KEY_ID'' @ [CHR 0x27]) None)
   \<and> [''AWS_SECRET_ACCESS_KEY'' \<mapsto> ''s3cr3t''] ''AWS_ACCESS_KEY_ID'' = None
   \<and> get_s3_fs [''AWS_SECRET_ACCESS_KEY'' \<mapsto> ''s3cr3t''] = Inl (Exn ''OSError''
        (''Cannot use provided S3 workdir due to missing required authorization environment variable ''
          @ [CHR 0x27] @ ''AWS_ACCESS_KEY_ID'' @ [CHR 0x27]) None)
   \<and> [''AWS_ACCESS_KEY_ID'' \<mapsto> ''AKIA''] ''AWS_ACCESS_KEY_ID'' \<noteq> None
   \<and> [''AWS_ACCESS_KEY_ID'' \<mapsto> ''AKIA''] ''AWS_SECRET_ACCESS_KEY'' = None
   \<and> get_s3_fs [''AWS_ACCESS_KEY_ID'' \<mapsto> ''AKIA''] = Inl (Exn ''OSError''
        (''Cannot use provided S3 workdir due to missing required authorization environment variable ''
          @ [CHR 0x27] @ ''AWS_SECRET_ACCESS_KEY'' @ [CHR 0x27]) None)
   \<and> [''AWS_ACCESS_KEY_ID'' \<mapsto> ''AKIA'', ''AWS_SECRET_ACCESS_KEY'' \<mapsto> ''s3cr3t'']
        ''AWS_REGION'' = None
   \<and> get_s3_fs [''AWS_ACCESS_KEY_ID'' \<mapsto> ''AKIA'', ''AWS_SECRET_ACCESS_KEY'' \<mapsto> ''s3cr3t'']
        = Inr (S3FileSystem
            \<lparr>s3_anon = False, s3_key = ''AKIA'', s3_secret = ''s3cr3t'',
             s3_region_name = ''eu-west-1'', s3_asynchronous = True\<rparr>)"
  using get_s3_fs_credentials [of Map.empty]
        get_s3_fs_credentials [of "[''AWS_SECRET_ACCESS_KEY'' \<mapsto> ''s3cr3t'']"]
        get_s3_fs_credentials [of "[''AWS_ACCESS_KEY_ID'' \<mapsto> ''AKIA'']"]
        get_s3_fs_credentials [of "[''AWS_ACCESS_KEY_ID'' \<mapsto> ''AKIA'', ''AWS_SECRET_ACCESS_KEY'' \<mapsto> ''s3cr3t'']" "''AKIA''" "''s3cr3t''"]
  by simp

section \<open>Properties of the attribute normalization\<close>

lemma normalize_value_fixed:
  "normalize_value L v = Inr v' \<Longrightarrow> normalize_value L v' = Inr v'"
  by (cases v) (auto split: sum.splits)

lemma normalize_attrs_Cons_Inr:
  "normalize_attrs L ((key, v) # items) = Inr out \<Longrightarrow>
     \<exists>v' items'. normalize_value L v = Inr v' \<and> normalize_attrs L items = Inr items'
        \<and> out = (key, v') # items'"
  by (auto split: sum.splits)

lemma normalize_value_other: "other_kind v \<Longrightarrow> normalize_value L v = Inr v"
  by (cases v) auto

lemma widened_value:
  "(case v of PNpFloating p x \<Rightarrow> v' = PFloat x | _ \<Rightarrow> v' = v) = (v' = widen_value v)"
  by (cases v) auto

lemma widened_widen_floats: "widened d d' = (d' = widen_floats d)"
proof (induction d arbitrary: d')
  case Nil
  show ?case by (auto simp: widened_def widen_floats_def)
next
  case (Cons kv d)
  obtain k v where kv: "kv = (k, v)" by (cases kv)
  show ?case
  proof (cases d')
    case Nil
    then show ?thesis by (simp add: widened_def widen_floats_def)
  next
    case (Cons kv' rest)
    obtain k' v' where kv': "kv' = (k', v')" by (cases kv')
    have "widened (kv # d) d' =
            (k' = k \<and> v' = widen_value v \<and> widened d rest)"
      unfolding widened_def Cons kv kv' by (simp add: widened_value)
    also have "\<dots> = (d' = widen_floats (kv # d))"
      unfolding Cons.IH Cons kv kv' by (auto simp: widen_floats_def)
    finally show ?thesis .
  qed
qed

lemma normalize_attrs_pointwise:
  "(normalize_attrs L attrs = Inr attrs') =
     list_all2 (\<lambda>(key, v) (key', v'). key' = key \<and> normalize_value L v = Inr v') attrs attrs'"
proof (induction attrs arbitrary: attrs')
  case Nil
  show ?case by auto
next
  case (Cons kv items)
  obtain key v where kv: "kv = (key, v)" by (cases kv)
  show ?case
  proof (cases attrs')
    case Nil
    then show ?thesis using kv by (auto split: sum.splits)
  next
    case out: (Cons kv' items')
    obtain key' v' where kv': "kv' = (key', v')" by (cases kv')
    have "(normalize_attrs L (kv # items) = Inr attrs') =
            (key' = key \<and> normalize_value L v = Inr v' \<and> normalize_attrs L items = Inr items')"
      unfolding kv out kv' by (auto split: sum.splits)
    then show ?thesis unfolding Cons.IH kv out kv' by simp
  qed
qed

lemma normalize_value_Inl:
  assumes "normalize_value L u = Inl e"
  shows "(\<exists>dd dd'. u = PDict dd \<and> widened dd dd' \<and> yaml_dump L (PDict dd') = Inl e)
       \<or> (\<exists>a. u = PArea a \<and> area_dump L a = Inl e)"
proof (cases u)
  case (PDict dd)
  with assms have "yaml_dump L (PDict (widen_floats dd)) = Inl e"
    by (auto split: sum.splits)
  with PDict show ?thesis using widened_widen_floats [of dd "widen_floats dd"] by blast
next
  case (PArea a)
  with assms show ?thesis by (auto split: sum.splits)
qed (use assms in auto)

lemma normalize_attrs_first_failure:
  "normalize_attrs L attrs = Inl e \<Longrightarrow>
     \<exists>pre key u post. attrs = pre @ (key, u) # post
        \<and> (\<exists>pre'. normalize_attrs L pre = Inr pre') \<and> normalize_value L u = Inl e"
proof (induction attrs)
  case Nil
  then show ?case by simp
next
  case (Cons kv items)
  obtain key v where kv: "kv = (key, v)" by (cases kv)
  show ?case
  proof (cases "normalize_value L v")
    case (Inl e')
    with Cons.prems kv have "e' = e" by simp
    with Inl kv have "kv # items = [] @ (key, v) # items \<and> normalize_attrs L [] = Inr []
        \<and> normalize_value L v = Inl e"
      by simp
    then show ?thesis by blast
  next
    case (Inr v')
    with Cons.prems kv have "normalize_attrs L items = Inl e" by (auto split: sum.splits)
    from Cons.IH [OF this] obtain pre k u post pre' where
      items: "items = pre @ (k, u) # post" and pre: "normalize_attrs L pre = Inr pre'"
      and u: "normalize_value L u = Inl e"
      by blast
    from items kv have "kv # items = ((key, v) # pre) @ (k, u) # post" by simp
    moreover from Inr pre have "normalize_attrs L ((key, v) # pre) = Inr ((key, v') # pre')"
      by simp
    ultimately show ?thesis using u by blast
  qed
qed

text \<open>
  C3. The normalization rewrites each value by its kind. A \<open>bool\<close> and a numpy bool
  become the string \<open>True\<close> or \<open>False\<close>; a datetime becomes its \<open>isoformat()\<close>; an area
  definition becomes the string its \<open>dump()\<close> returns, or the exception \<open>dump()\<close> raises
  is raised; a nested dictionary becomes the string \<open>yaml.dump\<close> returns for the
  dictionary with its numbers widened (same keys, same order, each direct numpy floating
  value replaced by the Python float of the same number), or the exception \<open>yaml.dump\<close>
  raises is raised; a value of any other kind is returned as it is, and nothing is
  raised for it. The loop returns a mapping exactly when the rewrite of every value
  returns, and the mapping then has the same keys in the same order, each with its
  rewritten value. When the loop raises, the exception is the one \<open>yaml.dump\<close> or
  \<open>dump()\<close> raised on the first value whose rewrite raises.
\<close>

theorem normalize_attrs_by_kind:
  "normalize_value L (PBool b) = Inr (PStr (if b then ''True'' else ''False''))
   \<and> normalize_value L (PNpBool b) = Inr (PStr (if b then ''True'' else ''False''))
   \<and> normalize_value L (PDatetime t) = Inr (PStr (isoformat L t))
   \<and> normalize_value L (PArea a) =
        (case area_dump L a of Inl e \<Rightarrow> Inl e | Inr s \<Rightarrow> Inr (PStr s))
   \<and> (\<exists>d'. widened d d')
   \<and> (widened d d' \<longrightarrow>
        normalize_value L (PDict d) =
          (case yaml_dump L (PDict d') of Inl e \<Rightarrow> Inl e | Inr s \<Rightarrow> Inr (PStr s)))
   \<and> (other_kind v \<longrightarrow> normalize_value L v = Inr v)
   \<and> ((normalize_attrs L attrs = Inr attrs') =
        list_all2 (\<lambda>(key, v) (key', v'). key' = key \<and> normalize_value L v = Inr v')
          attrs attrs')
   \<and> (normalize_attrs L attrs = Inl e \<longrightarrow>
        (\<exists>pre key u post.
           attrs = pre @ (key, u) # post
           \<and> (\<exists>pre'. normalize_attrs L pre = Inr pre')
           \<and> ((\<exists>dd dd'. u = PDict dd \<and> widened dd dd' \<and> yaml_dump L (PDict dd') = Inl e)
              \<or> (\<exists>a. u = PArea a \<and> area_dump L a = Inl e))))"
proof (intro conjI impI)
  show "\<exists>d'. widened d d'" using widened_widen_floats [of d "widen_floats d"] by blast
next
  assume "widened d d'"
  then have "d' = widen_floats d" by (simp add: widened_widen_floats)
  then show "normalize_value L (PDict d) =
          (case yaml_dump L (PDict d') of Inl e \<Rightarrow> Inl e | Inr s \<Rightarrow> Inr (PStr s))"
    by simp
next
  assume "other_kind v"
  then show "normalize_value L v = Inr v" by (rule normalize_value_other)
next
  show "(normalize_attrs L attrs = Inr attrs') =
        list_all2 (\<lambda>(key, v) (key', v'). key' = key \<and> normalize_value L v = Inr v')
          attrs attrs'"
    by (rule normalize_attrs_pointwise)
next
  assume "normalize_attrs L attrs = Inl e"
  from normalize_attrs_first_failure [OF this] obtain pre key u post pre' where
    "attrs = pre @ (key, u) # post" "normalize_attrs L pre = Inr pre'"
    "normalize_value L u = Inl e"
    by blast
  with normalize_value_Inl [of L u e]
  show "\<exists>pre key u post.
           attrs = pre @ (key, u) # post
           \<and> (\<exists>pre'. normalize_attrs L pre = Inr pre')
           \<and> ((\<exists>dd dd'. u = PDict dd \<and> widened dd dd' \<and> yaml_dump L (PDict dd') = Inl e)
              \<or> (\<exists>a. u = PArea a \<and> area_dump L a = Inl e))"
    by blast
qed (simp_all add: str_bool_def)

theorem normalize_attrs_by_kind_witness:
  "widened [(''height'', PNpFloating Float32 0x4041800000000000 :: (string, string) pyval)]
           [(''height'', PFloat 0x4041800000000000)]
   \<and> normalize_value
        (quiet_libs\<lparr>yaml_dump := \<lambda>v. if v = PDict [(''height'', PFloat 0x4041800000000000)]
            then Inr ''{height: 35.0}''
            else Inl (Exn ''RepresenterError'' ''cannot represent an object'' None)\<rparr>)
        (PDict [(''height'', PNpFloating Float32 0x4041800000000000)])
       = Inr (PStr ''{height: 35.0}'')
   \<and> other_kind (PInt 3 :: (string, string) pyval)
   \<and> normalize_value quiet_libs (PInt 3) = Inr (PInt 3)
   \<and> normalize_attrs
        (quiet_libs\<lparr>yaml_dump := \<lambda>v. if v = PDict [(''height'', PFloat 0x4041800000000000)]
            then Inr ''{height: 35.0}''
            else Inl (Exn ''RepresenterError'' ''cannot represent an object'' None)\<rparr>)
        [(''calibrated'', PBool True),
         (''orbital_parameters'', PDict [(''height'', PNpFloating Float32 0x4041800000000000)]),
         (''area'', PArea ''msg_seviri_rss_3km''), (''start_time'', PDatetime ''2023-09-10T22:12:40''),
         (''flag'', PNpBool False), (''platform'', PStr ''MSG3''), (''orbit'', PInt 3)]
       = Inr [(''calibrated'', PStr ''True''), (''orbital_parameters'', PStr ''{height: 35.0}''),
         (''area'', PStr ''msg_seviri_rss_3km''), (''start_time'', PStr ''2023-09-10T22:12:40''),
         (''flag'', PStr ''False''), (''platform'', PStr ''MSG3''), (''orbit'', PInt 3)]
   \<and> normalize_attrs
        (quiet_libs\<lparr>area_dump := \<lambda>a. Inl (Exn ''ValueError'' ''no projection'' None)\<rparr>)
        [(''orbit'', PInt 3), (''area'', PArea ''msg_seviri_rss_3km''), (''flag'', PBool True)]
       = Inl (Exn ''ValueError'' ''no projection'' None)"
proof -
  let ?L = "quiet_libs\<lparr>yaml_dump := \<lambda>v. if v = PDict [(''height'', PFloat 0x4041800000000000)]
            then Inr ''{height: 35.0}''
            else Inl (Exn ''RepresenterError'' ''cannot represent an object'' None)\<rparr>"
  let ?F = "quiet_libs\<lparr>area_dump := \<lambda>a. Inl (Exn ''ValueError'' ''no projection'' None)\<rparr>"
  let ?A = "[(''calibrated'', PBool True),
         (''orbital_parameters'', PDict [(''height'', PNpFloating Float32 0x4041800000000000)]),
         (''area'', PArea ''msg_seviri_rss_3km''), (''start_time'', PDatetime ''2023-09-10T22:12:40''),
         (''flag'', PNpBool False), (''platform'', PStr ''MSG3''), (''orbit'', PInt 3)]"
  let ?A' = "[(''calibrated'', PStr ''True''), (''orbital_parameters'', PStr ''{height: 35.0}''),
         (''area'', PStr ''msg_seviri_rss_3km''), (''start_time'', PStr ''2023-09-10T22:12:40''),
         (''flag'', PStr ''False''), (''platform'', PStr ''MSG3''), (''orbit'', PInt 3)]"
  have w: "widened [(''height'', PNpFloating Float32 0x4041800000000000 :: (string, string) pyval)]
                   [(''height'', PFloat 0x4041800000000000)]"
    by (simp add: widened_def)
  have o: "other_kind (PInt 3 :: (string, string) pyval)" by simp
  note t1 = normalize_attrs_by_kind [where L = ?L and attrs = ?A and attrs' = ?A'
      and d = "[(''height'', PNpFloating Float32 0x4041800000000000)]"
      and d' = "[(''height'', PFloat 0x4041800000000000)]"]
  note t2 = normalize_attrs_by_kind [where L = quiet_libs and v = "PInt 3"]
  have d: "normalize_value ?L (PDict [(''height'', PNpFloating Float32 0x4041800000000000)])
       = Inr (PStr ''{height: 35.0}'')"
    using t1 w by (simp add: quiet_libs_def)
  have i: "normalize_value quiet_libs (PInt 3) = Inr (PInt 3)"
    using t2 o by blast
  have a: "normalize_attrs ?L ?A = Inr ?A'"
    using t1 d by (simp add: quiet_libs_def)
  have f: "normalize_attrs ?F
        [(''orbit'', PInt 3), (''area'', PArea ''msg_seviri_rss_3km''), (''flag'', PBool True)]
       = Inl (Exn ''ValueError'' ''no projection'' None)"
    by simp
  from w d o i a f show ?thesis by blast
qed

text \<open>
  C4. Normalization is idempotent: normalizing the attributes a normalization returned
  returns them again. This holds for every attribute mapping, of supported kinds or not.
\<close>

theorem normalize_attrs_idempotent:
  "normalize_attrs L attrs = Inr attrs' \<Longrightarrow> normalize_attrs L attrs' = Inr attrs'"
proof (induction attrs arbitrary: attrs')
  case Nil
  then show ?case by simp
next
  case (Cons kv items)
  obtain key v where kv: "kv = (key, v)" by (cases kv)
  from Cons.prems kv obtain v' items' where
    nv: "normalize_value L v = Inr v'" and
    na: "normalize_attrs L items = Inr items'" and
    out: "attrs' = (key, v') # items'"
    using normalize_attrs_Cons_Inr by blast
  from normalize_value_fixed [OF nv] Cons.IH [OF na] out show ?case by simp
qed

theorem normalize_attrs_idempotent_witness:
  "normalize_attrs quiet_libs
      [(''calibrated'', PBool True), (''orbital_parameters'', PDict [(''height'', PNpFloating Float32 0x4041800000000000)]),
       (''start_time'', PDatetime ''2023-09-10T22:12:40''), (''orbit'', PInt 3)]
     = Inr [(''calibrated'', PStr ''True''), (''orbital_parameters'', PStr ''{}''),
            (''start_time'', PStr ''2023-09-10T22:12:40''), (''orbit'', PInt 3)]
   \<and> normalize_attrs quiet_libs
        [(''calibrated'', PStr ''True''), (''orbital_parameters'', PStr ''{}''),
         (''start_time'', PStr ''2023-09-10T22:12:40''), (''orbit'', PInt 3)]
     = Inr [(''calibrated'', PStr ''True''), (''orbital_parameters'', PStr ''{}''),
            (''start_time'', PStr ''2023-09-10T22:12:40''), (''orbit'', PInt 3)]"
proof -
  have first: "normalize_attrs quiet_libs
      [(''calibrated'', PBool True), (''orbital_parameters'', PDict [(''height'', PNpFloating Float32 0x4041800000000000)]),
       (''start_time'', PDatetime ''2023-09-10T22:12:40''), (''orbit'', PInt 3)]
     = Inr [(''calibrated'', PStr ''True''), (''orbital_parameters'', PStr ''{}''),
            (''start_time'', PStr ''2023-09-10T22:12:40''), (''orbit'', PInt 3)]"
    by (simp add: quiet_libs_def str_bool_def widen_floats_def)
  from first normalize_attrs_idempotent [OF first] show ?thesis by (rule conjI)
qed

text \<open>
  C5 fails for a reduced-precision float that lies deeper than the direct values of the
  nested dictionary: the loop that widens (\<open>for k, v in value.items()\<close>) visits the
  direct values only. For the attributes
  \<open>{"orbital_parameters": {"projection": {"height": np.float32(35.0)}}}\<close> the widening
  leaves the dictionary as it is, so the value handed to \<open>yaml.dump\<close> still holds the
  \<open>np.float32\<close>: an encoder that reports what it is given sees it there, while it sees
  none when the same float is a direct value.
\<close>

theorem nested_float_not_widened:
  "widen_floats
      [(''projection'', PDict [(''height'', PNpFloating Float32 0x4041800000000000 :: (string, string) pyval)])]
     = [(''projection'', PDict [(''height'', PNpFloating Float32 0x4041800000000000)])]
   \<and> has_reduced_float (PDict (widen_floats
        [(''projection'', PDict [(''height'', PNpFloating Float32 0x4041800000000000 :: (string, string) pyval)])]))
   \<and> normalize_attrs
        (quiet_libs\<lparr>yaml_dump := \<lambda>v. Inr (if has_reduced_float v then ''np.float32 inside''
                                             else ''floats widened'')\<rparr>)
        [(''orbital_parameters'',
          PDict [(''projection'', PDict [(''height'', PNpFloating Float32 0x4041800000000000)])])]
     = Inr [(''orbital_parameters'', PStr ''np.float32 inside'')]
   \<and> normalize_attrs
        (quiet_libs\<lparr>yaml_dump := \<lambda>v. Inr (if has_reduced_float v then ''np.float32 inside''
                                             else ''floats widened'')\<rparr>)
        [(''orbital_parameters'', PDict [(''height'', PNpFloating Float32 0x4041800000000000)])]
     = Inr [(''orbital_parameters'', PStr ''floats widened'')]"
  by (simp add: widen_floats_def)

section \<open>Properties of \<open>write_to_zarr\<close>\<close>

lemmas run_defs = write_to_zarr_def write_body_def da_chunk_def coords_getitem_def
  coords_setitem_def astype_str_def to_dataset_def dask_blocks_def quiet_libs_def
  example_da_def widen_floats_def str_bool_def Let_def raise_from_def OSError_def
  get_s3_fs_def missing_variable_def environ_getitem_def os_getenv_def str_int_def

lemma map_of_map_keyed:
  "map_of (map (\<lambda>(dim, n). (dim, f dim n)) xs) k = map_option (f k) (map_of xs k)"
  by (induction xs) auto

lemma da_chunk_Inr:
  assumes "da_chunk spec da = Inr da1"
  shows "(\<forall>(dim, c) \<in> set spec. map_of (da_sizes da) dim \<noteq> None)"
    and "da_sizes da1 = da_sizes da" and "da_coords da1 = da_coords da"
    and "da_attrs da1 = da_attrs da"
    and "map_of (da_chunks da1) dim =
           map_option (\<lambda>n. case map_of spec dim of
                              Some c \<Rightarrow> dask_blocks c n
                            | None \<Rightarrow> (case map_of (da_chunks da) dim of
                                         Some bs \<Rightarrow> bs | None \<Rightarrow> [n]))
                      (map_of (da_sizes da) dim)"
proof -
  from assms have empty: "filter (\<lambda>(dim, c). map_of (da_sizes da) dim = None) spec = []"
    and da1: "da1 = da\<lparr>da_chunks :=
                 map (\<lambda>(dim, n).
                        (dim, case map_of spec dim of
                                Some c \<Rightarrow> dask_blocks c n
                              | None \<Rightarrow> (case map_of (da_chunks da) dim of
                                           Some bs \<Rightarrow> bs
                                         | None \<Rightarrow> [n])))
                     (da_sizes da)\<rparr>"
    by (auto simp: da_chunk_def split: list.splits)
  from empty show "\<forall>(dim, c) \<in> set spec. map_of (da_sizes da) dim \<noteq> None"
    by (auto simp: filter_empty_conv)
  from da1 show "da_sizes da1 = da_sizes da" "da_coords da1 = da_coords da"
    "da_attrs da1 = da_attrs da" by simp_all
  from da1 show "map_of (da_chunks da1) dim =
           map_option (\<lambda>n. case map_of spec dim of
                              Some c \<Rightarrow> dask_blocks c n
                            | None \<Rightarrow> (case map_of (da_chunks da) dim of
                                         Some bs \<Rightarrow> bs | None \<Rightarrow> [n]))
                      (map_of (da_sizes da) dim)"
    by (simp add: map_of_map_keyed)
qed

lemma da_chunk_total:
  assumes "\<forall>(dim, c) \<in> set spec. map_of (da_sizes da) dim \<noteq> None"
  shows "\<exists>da1. da_chunk spec da = Inr da1"
proof -
  from assms have "filter (\<lambda>(dim, c). map_of (da_sizes da) dim = None) spec = []"
    by (auto simp: filter_empty_conv)
  then show ?thesis by (simp add: da_chunk_def)
qed

text \<open>
  What \<open>da.coords[name]\<close> returns: the coordinate of that name, or the default index of
  the dimension of that name when the array has no such coordinate.
\<close>

lemma coords_getitem_Inr:
  "(coords_getitem da name = Inr orig) =
     (map_of (da_coords da) name = Some orig
      \<or> (map_of (da_coords da) name = None
          \<and> (\<exists>n. map_of (da_sizes da) name = Some n
                   \<and> orig = map (\<lambda>i. IntValue (int i)) [0..<n])))"
  by (auto simp: coords_getitem_def split: option.splits)

lemma coords_after_chunk:
  assumes "da_chunk [(''time'', 1), (''x_geostationary'', - 1), (''y_geostationary'', - 1),
                     (''variable'', 1)] da = Inr da1"
  shows "coords_getitem da1 ''variable'' = coords_getitem da ''variable''"
    and "\<exists>variable. coords_getitem da ''variable'' = Inr variable"
proof -
  note c = da_chunk_Inr [OF assms]
  show "coords_getitem da1 ''variable'' = coords_getitem da ''variable''"
    by (simp add: coords_getitem_def c(2) c(3) split: option.splits)
  from c(1) obtain n where "map_of (da_sizes da) ''variable'' = Some n" by auto
  then show "\<exists>variable. coords_getitem da ''variable'' = Inr variable"
    by (auto simp: coords_getitem_def split: option.splits)
qed

lemma write_body_calls:
  "call \<in> set (snd (write_body L fs path mode kw da)) \<Longrightarrow>
   \<exists>da1 variable.
     da_chunk [(''time'', 1), (''x_geostationary'', - 1), (''y_geostationary'', - 1),
               (''variable'', 1)] da = Inr da1
     \<and> coords_getitem da1 ''variable'' = Inr variable
     \<and> call = \<lparr>zc_dataset = to_dataset ''data'' True
                   (coords_setitem da1 ''variable'' (astype_str L variable)),
               zc_store_fs = fs, zc_store_path = path, zc_compute = True, zc_mode = mode,
               zc_consolidated = True, zc_kwargs = kw\<rparr>"
  by (auto simp: write_body_def Let_def split: sum.splits option.splits)

lemma write_body_chunked:
  assumes "da_chunk [(''time'', 1), (''x_geostationary'', - 1), (''y_geostationary'', - 1),
                     (''variable'', 1)] da = Inr da1"
  shows "\<exists>call. zc_store_fs call = fs \<and> zc_store_path call = path \<and> zc_mode call = mode
           \<and> zc_kwargs call = kw
           \<and> write_body L fs path mode kw da =
               (case to_zarr L call of Some e \<Rightarrow> (Inl e, [call]) | None \<Rightarrow> (Inr (), [call]))"
proof -
  from coords_after_chunk [OF assms] obtain variable where
    "coords_getitem da1 ''variable'' = Inr variable" by auto
  with assms have "write_body L fs path mode kw da =
      (case to_zarr L \<lparr>zc_dataset = to_dataset ''data'' True
                   (coords_setitem da1 ''variable'' (astype_str L variable)),
               zc_store_fs = fs, zc_store_path = path, zc_compute = True, zc_mode = mode,
               zc_consolidated = True, zc_kwargs = kw\<rparr> of
         Some e \<Rightarrow> (Inl e, [\<lparr>zc_dataset = to_dataset ''data'' True
                   (coords_setitem da1 ''variable'' (astype_str L variable)),
               zc_store_fs = fs, zc_store_path = path, zc_compute = True, zc_mode = mode,
               zc_consolidated = True, zc_kwargs = kw\<rparr>])
       | None \<Rightarrow> (Inr (), [\<lparr>zc_dataset = to_dataset ''data'' True
                   (coords_setitem da1 ''variable'' (astype_str L variable)),
               zc_store_fs = fs, zc_store_path = path, zc_compute = True, zc_mode = mode,
               zc_consolidated = True, zc_kwargs = kw\<rparr>]))"
    by (simp add: write_body_def Let_def split: option.splits)
  then show ?thesis
    by (intro exI [of _ "\<lparr>zc_dataset = to_dataset ''data'' True
                   (coords_setitem da1 ''variable'' (astype_str L variable)),
               zc_store_fs = fs, zc_store_path = path, zc_compute = True, zc_mode = mode,
               zc_consolidated = True, zc_kwargs = kw\<rparr>"]) simp
qed

lemma write_body_not_chunked:
  assumes "da_chunk [(''time'', 1), (''x_geostationary'', - 1), (''y_geostationary'', - 1),
                     (''variable'', 1)] da = Inl e"
  shows "write_body L fs path mode kw da = (Inl e, [])"
  using assms by (simp add: write_body_def)

lemma write_to_zarr_normalized:
  assumes "(if prefix ''s3://'' path then get_s3_fs env else Inr (AsyncLocalFileSystem True))
             = Inr fs"
    and "fs_exists L fs path = Inr ex"
    and "normalize_attrs L (da_attrs da) = Inr attrs'"
  shows "write_to_zarr L env da path =
      (case write_body L fs path (if ex then ''a'' else ''w'')
              (if ex then \<lparr>kw_append_dim = Some ''time'', kw_encoding = None\<rparr>
               else \<lparr>kw_append_dim = None,
                     kw_encoding = Some [(''time'', [(''units'', ''nanoseconds since 1970-01-01'')])]\<rparr>)
              (da\<lparr>da_attrs := attrs'\<rparr>) of
         (Inl e, calls) \<Rightarrow>
           (Inl (Exn ''OSError''
                   (''Error writing dataset to zarr store '' @ path @ '': '' @ exn_text e)
                   (Some e)), calls)
       | (Inr u, calls) \<Rightarrow> (Inr (), calls))"
  using assms by (auto simp: write_to_zarr_def Let_def raise_from_def OSError_def
      split: sum.splits prod.splits)

lemma write_to_zarr_calls:
  "call \<in> set (snd (write_to_zarr L env da path)) \<Longrightarrow>
   \<exists>fs ex attrs'.
     (if prefix ''s3://'' path then get_s3_fs env else Inr (AsyncLocalFileSystem True)) = Inr fs
     \<and> fs_exists L fs path = Inr ex
     \<and> normalize_attrs L (da_attrs da) = Inr attrs'
     \<and> call \<in> set (snd (write_body L fs path (if ex then ''a'' else ''w'')
          (if ex then \<lparr>kw_append_dim = Some ''time'', kw_encoding = None\<rparr>
           else \<lparr>kw_append_dim = None,
                 kw_encoding = Some [(''time'', [(''units'', ''nanoseconds since 1970-01-01'')])]\<rparr>)
          (da\<lparr>da_attrs := attrs'\<rparr>)))"
  unfolding write_to_zarr_def Let_def
  by (auto split: sum.splits prod.splits if_splits)

text \<open>
  A write whose filesystem is resolved, whose normalization returns and whose array has
  the four dimensions makes exactly one \<open>to_zarr\<close> call.
\<close>

lemma write_to_zarr_one_call:
  assumes fs: "(if prefix ''s3://'' path then get_s3_fs env else Inr (AsyncLocalFileSystem True))
             = Inr fs"
    and ex: "fs_exists L fs path = Inr ex"
    and norm: "normalize_attrs L (da_attrs da) = Inr attrs'"
    and dims: "map_of (da_sizes da) ''time'' \<noteq> None"
      "map_of (da_sizes da) ''x_geostationary'' \<noteq> None"
      "map_of (da_sizes da) ''y_geostationary'' \<noteq> None"
      "map_of (da_sizes da) ''variable'' \<noteq> None"
  shows "\<exists>call. snd (write_to_zarr L env da path) = [call]
     \<and> zc_store_fs call = fs \<and> zc_store_path call = path
     \<and> zc_mode call = (if ex then ''a'' else ''w'')
     \<and> zc_kwargs call =
          (if ex then \<lparr>kw_append_dim = Some ''time'', kw_encoding = None\<rparr>
           else \<lparr>kw_append_dim = None,
                 kw_encoding = Some [(''time'', [(''units'', ''nanoseconds since 1970-01-01'')])]\<rparr>)
     \<and> fst (write_to_zarr L env da path) =
          (case to_zarr L call of
             Some cause \<Rightarrow>
               Inl (Exn ''OSError''
                      (''Error writing dataset to zarr store '' @ path @ '': '' @ exn_text cause)
                      (Some cause))
           | None \<Rightarrow> Inr ())"
proof -
  let ?da = "da\<lparr>da_attrs := attrs'\<rparr>"
  let ?mode = "if ex then ''a'' else ''w''"
  let ?kw = "if ex then \<lparr>kw_append_dim = Some ''time'', kw_encoding = None\<rparr>
           else \<lparr>kw_append_dim = None,
                 kw_encoding = Some [(''time'', [(''units'', ''nanoseconds since 1970-01-01'')])]\<rparr>"
  from dims have "\<forall>(dim, c) \<in> set [(''time'', 1 :: int), (''x_geostationary'', - 1),
      (''y_geostationary'', - 1), (''variable'', 1)]. map_of (da_sizes ?da) dim \<noteq> None"
    by simp
  from da_chunk_total [OF this] obtain da1 where
    ch: "da_chunk [(''time'', 1), (''x_geostationary'', - 1), (''y_geostationary'', - 1),
                   (''variable'', 1)] ?da = Inr da1"
    by blast
  from write_body_chunked [OF ch, of fs path ?mode ?kw L] obtain call where
    c: "zc_store_fs call = fs" "zc_store_path call = path" "zc_mode call = ?mode"
       "zc_kwargs call = ?kw"
    and b: "write_body L fs path ?mode ?kw ?da =
               (case to_zarr L call of Some e \<Rightarrow> (Inl e, [call]) | None \<Rightarrow> (Inr (), [call]))"
    by blast
  note w = write_to_zarr_normalized [OF fs ex norm]
  have "snd (write_to_zarr L env da path) = [call]"
    unfolding w b by (simp split: option.splits)
  moreover have "fst (write_to_zarr L env da path) =
          (case to_zarr L call of
             Some cause \<Rightarrow>
               Inl (Exn ''OSError''
                      (''Error writing dataset to zarr store '' @ path @ '': '' @ exn_text cause)
                      (Some cause))
           | None \<Rightarrow> Inr ())"
    unfolding w b by (simp split: option.splits)
  ultimately show ?thesis using c by blast
qed

lemma dask_blocks_one: "dask_blocks 1 n = (if n = 0 then [0] else replicate n 1)"
  by (simp add: dask_blocks_def)

lemma dask_blocks_whole: "dask_blocks (- 1) n = [n]"
  by (simp add: dask_blocks_def)

lemma astype_str_strings: "list_all is_string_value (astype_str L vs)"
  by (induction vs) (auto simp: astype_str_def split: coord_value.splits)

lemma astype_str_pointwise:
  "list_all2 (\<lambda>v v'. v' = StrValue (case v of StrValue s \<Rightarrow> s | _ \<Rightarrow> np_str L v))
     vs (astype_str L vs)"
  by (induction vs) (auto simp: astype_str_def split: coord_value.splits)

text \<open>
  C6. Every \<open>to_zarr\<close> call \<open>write_to_zarr\<close> makes is on the store at \<open>path\<close> of the
  resolved filesystem, in mode \<open>"a"\<close> when \<open>fs.exists(path)\<close> answered true and in mode
  \<open>"w"\<close> when it answered false. In mode \<open>"w"\<close> it passes the encoding of \<open>time\<close> in
  nanoseconds since 1970-01-01 and no \<open>append_dim\<close>; in mode \<open>"a"\<close> it passes
  \<open>append_dim="time"\<close> and no encoding. And the call is made: when the filesystem is
  resolved, \<open>fs.exists\<close> has answered, the normalization returns and the array has the
  four dimensions, \<open>write_to_zarr\<close> makes exactly one \<open>to_zarr\<close> call, with that mode and
  those arguments.
\<close>

theorem write_to_zarr_mode:
  "(call \<in> set (snd (write_to_zarr L env da path)) \<longrightarrow>
     (\<exists>fs ex.
        (if prefix ''s3://'' path then get_s3_fs env else Inr (AsyncLocalFileSystem True)) = Inr fs
        \<and> fs_exists L fs path = Inr ex
        \<and> zc_store_fs call = fs \<and> zc_store_path call = path
        \<and> zc_mode call = (if ex then ''a'' else ''w'')
        \<and> zc_kwargs call =
             (if ex then \<lparr>kw_append_dim = Some ''time'', kw_encoding = None\<rparr>
              else \<lparr>kw_append_dim = None,
                    kw_encoding = Some [(''time'', [(''units'', ''nanoseconds since 1970-01-01'')])]\<rparr>)))
   \<and> ((if prefix ''s3://'' path then get_s3_fs env else Inr (AsyncLocalFileSystem True)) = Inr fs'
        \<and> fs_exists L fs' path = Inr ex'
        \<and> normalize_attrs L (da_attrs da) = Inr attrs'
        \<and> map_of (da_sizes da) ''time'' \<noteq> None
        \<and> map_of (da_sizes da) ''x_geostationary'' \<noteq> None
        \<and> map_of (da_sizes da) ''y_geostationary'' \<noteq> None
        \<and> map_of (da_sizes da) ''variable'' \<noteq> None \<longrightarrow>
      (\<exists>made. snd (write_to_zarr L env da path) = [made]
         \<and> zc_store_fs made = fs' \<and> zc_store_path made = path
         \<and> zc_mode made = (if ex' then ''a'' else ''w'')
         \<and> zc_kwargs made =
             (if ex' then \<lparr>kw_append_dim = Some ''time'', kw_encoding = None\<rparr>
              else \<lparr>kw_append_dim = None,
                    kw_encoding = Some [(''time'', [(''units'', ''nanoseconds since 1970-01-01'')])]\<rparr>)))"
proof (intro conjI impI)
  assume "call \<in> set (snd (write_to_zarr L env da path))"
  from write_to_zarr_calls [OF this] obtain fs ex attrs' where
    fs: "(if prefix ''s3://'' path then get_s3_fs env else Inr (AsyncLocalFileSystem True)) = Inr fs"
    and ex: "fs_exists L fs path = Inr ex"
    and body: "call \<in> set (snd (write_body L fs path (if ex then ''a'' else ''w'')
          (if ex then \<lparr>kw_append_dim = Some ''time'', kw_encoding = None\<rparr>
           else \<lparr>kw_append_dim = None,
                 kw_encoding = Some [(''time'', [(''units'', ''nanoseconds since 1970-01-01'')])]\<rparr>)
          (da\<lparr>da_attrs := attrs'\<rparr>)))"
    by blast
  from write_body_calls [OF body] fs ex
  show "\<exists>fs ex.
        (if prefix ''s3://'' path then get_s3_fs env else Inr (AsyncLocalFileSystem True)) = Inr fs
        \<and> fs_exists L fs path = Inr ex
        \<and> zc_store_fs call = fs \<and> zc_store_path call = path
        \<and> zc_mode call = (if ex then ''a'' else ''w'')
        \<and> zc_kwargs call =
             (if ex then \<lparr>kw_append_dim = Some ''time'', kw_encoding = None\<rparr>
              else \<lparr>kw_append_dim = None,
                    kw_encoding = Some [(''time'', [(''units'', ''nanoseconds since 1970-01-01'')])]\<rparr>)"
    by auto
next
  assume a: "(if prefix ''s3://'' path then get_s3_fs env else Inr (AsyncLocalFileSystem True)) = Inr fs'
        \<and> fs_exists L fs' path = Inr ex'
        \<and> normalize_attrs L (da_attrs da) = Inr attrs'
        \<and> map_of (da_sizes da) ''time'' \<noteq> None
        \<and> map_of (da_sizes da) ''x_geostationary'' \<noteq> None
        \<and> map_of (da_sizes da) ''y_geostationary'' \<noteq> None
        \<and> map_of (da_sizes da) ''variable'' \<noteq> None"
  from write_to_zarr_one_call [of path env fs' L ex' da attrs'] a
  show "\<exists>made. snd (write_to_zarr L env da path) = [made]
         \<and> zc_store_fs made = fs' \<and> zc_store_path made = path
         \<and> zc_mode made = (if ex' then ''a'' else ''w'')
         \<and> zc_kwargs made =
             (if ex' then \<lparr>kw_append_dim = Some ''time'', kw_encoding = None\<rparr>
              else \<lparr>kw_append_dim = None,
                    kw_encoding = Some [(''time'', [(''units'', ''nanoseconds since 1970-01-01'')])]\<rparr>)"
    by blast
qed

theorem write_to_zarr_mode_witness:
  "snd (write_to_zarr quiet_libs Map.empty example_da ''/work/rss.zarr'')
     = [hd (snd (write_to_zarr quiet_libs Map.empty example_da ''/work/rss.zarr''))]
   \<and> zc_mode (hd (snd (write_to_zarr quiet_libs Map.empty example_da ''/work/rss.zarr''))) = ''w''
   \<and> zc_kwargs (hd (snd (write_to_zarr quiet_libs Map.empty example_da ''/work/rss.zarr'')))
       = \<lparr>kw_append_dim = None,
          kw_encoding = Some [(''time'', [(''units'', ''nanoseconds since 1970-01-01'')])]\<rparr>
   \<and> snd (write_to_zarr (quiet_libs\<lparr>fs_exists := \<lambda>fs p. Inr True\<rparr>) Map.empty
          (example_da\<lparr>da_coords := []\<rparr>) ''/work/rss.zarr'')
     = [hd (snd (write_to_zarr (quiet_libs\<lparr>fs_exists := \<lambda>fs p. Inr True\<rparr>) Map.empty
          (example_da\<lparr>da_coords := []\<rparr>) ''/work/rss.zarr''))]
   \<and> zc_mode (hd (snd (write_to_zarr (quiet_libs\<lparr>fs_exists := \<lambda>fs p. Inr True\<rparr>) Map.empty
          (example_da\<lparr>da_coords := []\<rparr>) ''/work/rss.zarr''))) = ''a''
   \<and> zc_kwargs (hd (snd (write_to_zarr (quiet_libs\<lparr>fs_exists := \<lambda>fs p. Inr True\<rparr>) Map.empty
          (example_da\<lparr>da_coords := []\<rparr>) ''/work/rss.zarr'')))
       = \<lparr>kw_append_dim = Some ''time'', kw_encoding = None\<rparr>
   \<and> hd (snd (write_to_zarr quiet_libs Map.empty example_da ''/work/rss.zarr''))
       \<in> set (snd (write_to_zarr quiet_libs Map.empty example_da ''/work/rss.zarr''))
   \<and> zc_store_fs (hd (snd (write_to_zarr quiet_libs Map.empty example_da ''/work/rss.zarr'')))
       = AsyncLocalFileSystem True
   \<and> zc_store_path (hd (snd (write_to_zarr quiet_libs Map.empty example_da ''/work/rss.zarr'')))
       = ''/work/rss.zarr''"
proof -
  let ?A = "quiet_libs\<lparr>fs_exists := \<lambda>fs p. Inr True\<rparr>"
  let ?bare = "example_da\<lparr>da_coords := []\<rparr>"
  have fs: "(if prefix ''s3://'' ''/work/rss.zarr'' then get_s3_fs Map.empty
             else Inr (AsyncLocalFileSystem True)) = Inr (AsyncLocalFileSystem True)"
    by simp
  have e1: "fs_exists quiet_libs (AsyncLocalFileSystem True) ''/work/rss.zarr'' = Inr False"
    by (simp add: quiet_libs_def)
  have e2: "fs_exists ?A (AsyncLocalFileSystem True) ''/work/rss.zarr'' = Inr True"
    by simp
  have n1: "normalize_attrs quiet_libs (da_attrs example_da)
      = Inr [(''platform'', PStr ''MSG3''), (''calibrated'', PStr ''True''),
             (''orbital_parameters'', PStr ''{}'')]"
    by (simp add: quiet_libs_def example_da_def str_bool_def)
  have n2: "normalize_attrs ?A (da_attrs ?bare)
      = Inr [(''platform'', PStr ''MSG3''), (''calibrated'', PStr ''True''),
             (''orbital_parameters'', PStr ''{}'')]"
    by (simp add: quiet_libs_def example_da_def str_bool_def)
  have d1: "map_of (da_sizes example_da) ''time'' \<noteq> None"
    "map_of (da_sizes example_da) ''x_geostationary'' \<noteq> None"
    "map_of (da_sizes example_da) ''y_geostationary'' \<noteq> None"
    "map_of (da_sizes example_da) ''variable'' \<noteq> None"
    by (simp_all add: example_da_def)
  have d2: "map_of (da_sizes ?bare) ''time'' \<noteq> None"
    "map_of (da_sizes ?bare) ''x_geostationary'' \<noteq> None"
    "map_of (da_sizes ?bare) ''y_geostationary'' \<noteq> None"
    "map_of (da_sizes ?bare) ''variable'' \<noteq> None"
    by (simp_all add: example_da_def)
  from write_to_zarr_mode [of _ quiet_libs Map.empty example_da "''/work/rss.zarr''"
      "AsyncLocalFileSystem True" False] fs e1 n1 d1
  obtain m1 where m1: "snd (write_to_zarr quiet_libs Map.empty example_da ''/work/rss.zarr'') = [m1]"
    "zc_mode m1 = ''w''"
    "zc_kwargs m1 = \<lparr>kw_append_dim = None,
          kw_encoding = Some [(''time'', [(''units'', ''nanoseconds since 1970-01-01'')])]\<rparr>"
    by auto
  from write_to_zarr_mode [of _ ?A Map.empty ?bare "''/work/rss.zarr''"
      "AsyncLocalFileSystem True" True] fs e2 n2 d2
  obtain m2 where m2: "snd (write_to_zarr ?A Map.empty ?bare ''/work/rss.zarr'') = [m2]"
    "zc_mode m2 = ''a''"
    "zc_kwargs m2 = \<lparr>kw_append_dim = Some ''time'', kw_encoding = None\<rparr>"
    by auto
  from m1 have mem: "m1 \<in> set (snd (write_to_zarr quiet_libs Map.empty example_da ''/work/rss.zarr''))"
    by simp
  from write_to_zarr_mode [of m1 quiet_libs Map.empty example_da "''/work/rss.zarr''"] mem fs
  have "zc_store_fs m1 = AsyncLocalFileSystem True" "zc_store_path m1 = ''/work/rss.zarr''"
    by auto
  with m1 m2 show ?thesis by simp
qed

text \<open>
  C7. The array of every \<open>to_zarr\<close> call is cut into blocks of length 1 along \<open>time\<close>
  and along \<open>variable\<close> (as many blocks as the dimension is long; a dimension of length 0
  is one block of length 0), and is one block of the full length along each of
  \<open>x_geostationary\<close> and \<open>y_geostationary\<close>. When the filesystem is resolved,
  \<open>fs.exists\<close> has answered, the normalization returns and the array has the four
  dimensions, such a call is made.
\<close>

theorem write_to_zarr_chunks:
  "(call \<in> set (snd (write_to_zarr L env da path)) \<longrightarrow>
     (\<exists>arr nt nx ny nv.
        ds_data_vars (zc_dataset call) = [(''data'', arr)]
        \<and> da_sizes arr = da_sizes da
        \<and> map_of (da_sizes da) ''time'' = Some nt
        \<and> map_of (da_sizes da) ''x_geostationary'' = Some nx
        \<and> map_of (da_sizes da) ''y_geostationary'' = Some ny
        \<and> map_of (da_sizes da) ''variable'' = Some nv
        \<and> map_of (da_chunks arr) ''time'' = Some (if nt = 0 then [0] else replicate nt 1)
        \<and> map_of (da_chunks arr) ''x_geostationary'' = Some [nx]
        \<and> map_of (da_chunks arr) ''y_geostationary'' = Some [ny]
        \<and> map_of (da_chunks arr) ''variable'' = Some (if nv = 0 then [0] else replicate nv 1)))
   \<and> ((if prefix ''s3://'' path then get_s3_fs env else Inr (AsyncLocalFileSystem True)) = Inr fs
        \<and> fs_exists L fs path = Inr ex
        \<and> normalize_attrs L (da_attrs da) = Inr attrs'
        \<and> map_of (da_sizes da) ''time'' \<noteq> None
        \<and> map_of (da_sizes da) ''x_geostationary'' \<noteq> None
        \<and> map_of (da_sizes da) ''y_geostationary'' \<noteq> None
        \<and> map_of (da_sizes da) ''variable'' \<noteq> None \<longrightarrow>
      (\<exists>made. snd (write_to_zarr L env da path) = [made]))"
proof (intro conjI impI)
  assume "call \<in> set (snd (write_to_zarr L env da path))"
  from write_to_zarr_calls [OF this] obtain fs ex attrs' mode kw where
    body: "call \<in> set (snd (write_body L fs path mode kw (da\<lparr>da_attrs := attrs'\<rparr>)))"
    by blast
  from write_body_calls [OF body] obtain da1 variable where
    ch: "da_chunk [(''time'', 1), (''x_geostationary'', - 1), (''y_geostationary'', - 1),
               (''variable'', 1)] (da\<lparr>da_attrs := attrs'\<rparr>) = Inr da1"
    and call: "call = \<lparr>zc_dataset = to_dataset ''data'' True
                   (coords_setitem da1 ''variable'' (astype_str L variable)),
               zc_store_fs = fs, zc_store_path = path, zc_compute = True, zc_mode = mode,
               zc_consolidated = True, zc_kwargs = kw\<rparr>"
    by blast
  note c = da_chunk_Inr [OF ch]
  from c(1) obtain nt nx ny nv where sz:
    "map_of (da_sizes da) ''time'' = Some nt"
    "map_of (da_sizes da) ''x_geostationary'' = Some nx"
    "map_of (da_sizes da) ''y_geostationary'' = Some ny"
    "map_of (da_sizes da) ''variable'' = Some nv"
    by auto
  let ?arr = "coords_setitem da1 ''variable'' (astype_str L variable)"
  have "ds_data_vars (zc_dataset call) = [(''data'', ?arr)]"
    by (simp add: call to_dataset_def)
  moreover have "da_sizes ?arr = da_sizes da"
    using c(2) by (simp add: coords_setitem_def)
  moreover have "map_of (da_chunks ?arr) ''time'' = Some (if nt = 0 then [0] else replicate nt 1)"
    "map_of (da_chunks ?arr) ''x_geostationary'' = Some [nx]"
    "map_of (da_chunks ?arr) ''y_geostationary'' = Some [ny]"
    "map_of (da_chunks ?arr) ''variable'' = Some (if nv = 0 then [0] else replicate nv 1)"
    using sz by (simp_all add: coords_setitem_def c(5) dask_blocks_one dask_blocks_whole)
  ultimately show "\<exists>arr nt nx ny nv.
        ds_data_vars (zc_dataset call) = [(''data'', arr)]
        \<and> da_sizes arr = da_sizes da
        \<and> map_of (da_sizes da) ''time'' = Some nt
        \<and> map_of (da_sizes da) ''x_geostationary'' = Some nx
        \<and> map_of (da_sizes da) ''y_geostationary'' = Some ny
        \<and> map_of (da_sizes da) ''variable'' = Some nv
        \<and> map_of (da_chunks arr) ''time'' = Some (if nt = 0 then [0] else replicate nt 1)
        \<and> map_of (da_chunks arr) ''x_geostationary'' = Some [nx]
        \<and> map_of (da_chunks arr) ''y_geostationary'' = Some [ny]
        \<and> map_of (da_chunks arr) ''variable'' = Some (if nv = 0 then [0] else replicate nv 1)"
    using sz by blast
next
  assume a: "(if prefix ''s3://'' path then get_s3_fs env else Inr (AsyncLocalFileSystem True)) = Inr fs
        \<and> fs_exists L fs path = Inr ex
        \<and> normalize_attrs L (da_attrs da) = Inr attrs'
        \<and> map_of (da_sizes da) ''time'' \<noteq> None
        \<and> map_of (da_sizes da) ''x_geostationary'' \<noteq> None
        \<and> map_of (da_sizes da) ''y_geostationary'' \<noteq> None
        \<and> map_of (da_sizes da) ''variable'' \<noteq> None"
  from write_to_zarr_one_call [of path env fs L ex da attrs'] a
  show "\<exists>made. snd (write_to_zarr L env da path) = [made]" by blast
qed

theorem write_to_zarr_chunks_witness:
  "hd (snd (write_to_zarr quiet_libs Map.empty example_da ''/work/rss.zarr''))
     \<in> set (snd (write_to_zarr quiet_libs Map.empty example_da ''/work/rss.zarr''))
   \<and> snd (write_to_zarr quiet_libs Map.empty example_da ''/work/rss.zarr'')
       = [hd (snd (write_to_zarr quiet_libs Map.empty example_da ''/work/rss.zarr''))]
   \<and> da_chunks (snd (hd (ds_data_vars (zc_dataset
         (hd (snd (write_to_zarr quiet_libs Map.empty example_da ''/work/rss.zarr'')))))))
       = [(''time'', [1]), (''y_geostationary'', [100]), (''x_geostationary'', [100]),
          (''variable'', [1, 1])]
   \<and> da_chunks (snd (hd (ds_data_vars (zc_dataset
         (hd (snd (write_to_zarr quiet_libs Map.empty
            (example_da\<lparr>da_sizes := [(''time'', 0), (''y_geostationary'', 100),
                                      (''x_geostationary'', 100), (''variable'', 3)],
                        da_coords := []\<rparr>) ''/work/rss.zarr'')))))))
       = [(''time'', [0]), (''y_geostationary'', [100]), (''x_geostationary'', [100]),
          (''variable'', [1, 1, 1])]"
proof -
  have fs: "(if prefix ''s3://'' ''/work/rss.zarr'' then get_s3_fs Map.empty
             else Inr (AsyncLocalFileSystem True)) = Inr (AsyncLocalFileSystem True)"
    by simp
  have e1: "fs_exists quiet_libs (AsyncLocalFileSystem True) ''/work/rss.zarr'' = Inr False"
    by (simp add: quiet_libs_def)
  have n1: "normalize_attrs quiet_libs (da_attrs example_da)
      = Inr [(''platform'', PStr ''MSG3''), (''calibrated'', PStr ''True''),
             (''orbital_parameters'', PStr ''{}'')]"
    by (simp add: quiet_libs_def example_da_def str_bool_def)
  have d1: "map_of (da_sizes example_da) ''time'' \<noteq> None"
    "map_of (da_sizes example_da) ''x_geostationary'' \<noteq> None"
    "map_of (da_sizes example_da) ''y_geostationary'' \<noteq> None"
    "map_of (da_sizes example_da) ''variable'' \<noteq> None"
    by (simp_all add: example_da_def)
  from write_to_zarr_chunks [of _ quiet_libs Map.empty example_da "''/work/rss.zarr''"
      "AsyncLocalFileSystem True" False] fs e1 n1 d1
  obtain made where made:
    "snd (write_to_zarr quiet_libs Map.empty example_da ''/work/rss.zarr'') = [made]"
    by auto
  then have m: "hd (snd (write_to_zarr quiet_libs Map.empty example_da ''/work/rss.zarr''))
     \<in> set (snd (write_to_zarr quiet_libs Map.empty example_da ''/work/rss.zarr''))"
    by simp
  from made have one: "snd (write_to_zarr quiet_libs Map.empty example_da ''/work/rss.zarr'')
       = [hd (snd (write_to_zarr quiet_libs Map.empty example_da ''/work/rss.zarr''))]"
    by simp
  have c1: "da_chunks (snd (hd (ds_data_vars (zc_dataset
         (hd (snd (write_to_zarr quiet_libs Map.empty example_da ''/work/rss.zarr'')))))))
       = [(''time'', [1]), (''y_geostationary'', [100]), (''x_geostationary'', [100]),
          (''variable'', [1, 1])]"
    by (simp add: run_defs numeral_2_eq_2)
  have c2: "da_chunks (snd (hd (ds_data_vars (zc_dataset
         (hd (snd (write_to_zarr quiet_libs Map.empty
            (example_da\<lparr>da_sizes := [(''time'', 0), (''y_geostationary'', 100),
                                      (''x_geostationary'', 100), (''variable'', 3)],
                        da_coords := []\<rparr>) ''/work/rss.zarr'')))))))
       = [(''time'', [0]), (''y_geostationary'', [100]), (''x_geostationary'', [100]),
          (''variable'', [1, 1, 1])]"
    by (simp add: run_defs numeral_3_eq_3 decimal.simps)
  from m one c1 c2 show ?thesis by simp
qed

text \<open>
  C10. In the array of every \<open>to_zarr\<close> call the \<open>variable\<close> coordinate is
  \<open>da.coords["variable"]\<close> of the input (its \<open>variable\<close> coordinate, or the index
  \<open>0, 1, ...\<close> of the \<open>variable\<close> dimension when the input has no such coordinate)
  cast to strings, value by value: a string stays as it is, any other value becomes the
  string numpy makes of it. So every value of it is a string, whatever the values of the
  input were. When the filesystem is resolved, \<open>fs.exists\<close> has answered, the
  normalization returns and the array has the four dimensions, such a call is made.
\<close>

theorem write_to_zarr_variable_str:
  "(call \<in> set (snd (write_to_zarr L env da path)) \<longrightarrow>
     (\<exists>arr orig vs.
        ds_data_vars (zc_dataset call) = [(''data'', arr)]
        \<and> (map_of (da_coords da) ''variable'' = Some orig
            \<or> (map_of (da_coords da) ''variable'' = None
                \<and> (\<exists>n. map_of (da_sizes da) ''variable'' = Some n
                         \<and> orig = map (\<lambda>i. IntValue (int i)) [0..<n])))
        \<and> map_of (da_coords arr) ''variable'' = Some vs
        \<and> list_all2 (\<lambda>v v'. v' = StrValue (case v of StrValue s \<Rightarrow> s | _ \<Rightarrow> np_str L v))
             orig vs
        \<and> list_all is_string_value vs))
   \<and> ((if prefix ''s3://'' path then get_s3_fs env else Inr (AsyncLocalFileSystem True)) = Inr fs
        \<and> fs_exists L fs path = Inr ex
        \<and> normalize_attrs L (da_attrs da) = Inr attrs'
        \<and> map_of (da_sizes da) ''time'' \<noteq> None
        \<and> map_of (da_sizes da) ''x_geostationary'' \<noteq> None
        \<and> map_of (da_sizes da) ''y_geostationary'' \<noteq> None
        \<and> map_of (da_sizes da) ''variable'' \<noteq> None \<longrightarrow>
      (\<exists>made. snd (write_to_zarr L env da path) = [made]))"
proof (intro conjI impI)
  assume "call \<in> set (snd (write_to_zarr L env da path))"
  from write_to_zarr_calls [OF this] obtain fs ex attrs' mode kw where
    body: "call \<in> set (snd (write_body L fs path mode kw (da\<lparr>da_attrs := attrs'\<rparr>)))"
    by blast
  from write_body_calls [OF body] obtain da1 variable where
    ch: "da_chunk [(''time'', 1), (''x_geostationary'', - 1), (''y_geostationary'', - 1),
               (''variable'', 1)] (da\<lparr>da_attrs := attrs'\<rparr>) = Inr da1"
    and var: "coords_getitem da1 ''variable'' = Inr variable"
    and call: "call = \<lparr>zc_dataset = to_dataset ''data'' True
                   (coords_setitem da1 ''variable'' (astype_str L variable)),
               zc_store_fs = fs, zc_store_path = path, zc_compute = True, zc_mode = mode,
               zc_consolidated = True, zc_kwargs = kw\<rparr>"
    by blast
  from coords_after_chunk(1) [OF ch] var
  have "coords_getitem (da\<lparr>da_attrs := attrs'\<rparr>) ''variable'' = Inr variable" by simp
  then have orig: "map_of (da_coords da) ''variable'' = Some variable
            \<or> (map_of (da_coords da) ''variable'' = None
                \<and> (\<exists>n. map_of (da_sizes da) ''variable'' = Some n
                         \<and> variable = map (\<lambda>i. IntValue (int i)) [0..<n]))"
    by (simp add: coords_getitem_Inr)
  let ?arr = "coords_setitem da1 ''variable'' (astype_str L variable)"
  have "ds_data_vars (zc_dataset call) = [(''data'', ?arr)]"
    by (simp add: call to_dataset_def)
  moreover have "map_of (da_coords ?arr) ''variable'' = Some (astype_str L variable)"
    by (simp add: coords_setitem_def update_conv')
  ultimately show "\<exists>arr orig vs.
        ds_data_vars (zc_dataset call) = [(''data'', arr)]
        \<and> (map_of (da_coords da) ''variable'' = Some orig
            \<or> (map_of (da_coords da) ''variable'' = None
                \<and> (\<exists>n. map_of (da_sizes da) ''variable'' = Some n
                         \<and> orig = map (\<lambda>i. IntValue (int i)) [0..<n])))
        \<and> map_of (da_coords arr) ''variable'' = Some vs
        \<and> list_all2 (\<lambda>v v'. v' = StrValue (case v of StrValue s \<Rightarrow> s | _ \<Rightarrow> np_str L v))
             orig vs
        \<and> list_all is_string_value vs"
    using orig astype_str_strings [of L variable] astype_str_pointwise [of L variable]
    by blast
next
  assume a: "(if prefix ''s3://'' path then get_s3_fs env else Inr (AsyncLocalFileSystem True)) = Inr fs
        \<and> fs_exists L fs path = Inr ex
        \<and> normalize_attrs L (da_attrs da) = Inr attrs'
        \<and> map_of (da_sizes da) ''time'' \<noteq> None
        \<and> map_of (da_sizes da) ''x_geostationary'' \<noteq> None
        \<and> map_of (da_sizes da) ''y_geostationary'' \<noteq> None
        \<and> map_of (da_sizes da) ''variable'' \<noteq> None"
  from write_to_zarr_one_call [of path env fs L ex da attrs'] a
  show "\<exists>made. snd (write_to_zarr L env da path) = [made]" by blast
qed

theorem write_to_zarr_variable_str_witness:
  "hd (snd (write_to_zarr quiet_libs Map.empty example_da ''/work/rss.zarr''))
     \<in> set (snd (write_to_zarr quiet_libs Map.empty example_da ''/work/rss.zarr''))
   \<and> da_coords example_da = [(''variable'', [StrValue ''VIS006'', BytesValue ''IR_016''])]
   \<and> da_coords (snd (hd (ds_data_vars (zc_dataset
         (hd (snd (write_to_zarr quiet_libs Map.empty example_da ''/work/rss.zarr'')))))))
       = [(''variable'', [StrValue ''VIS006'', StrValue ''IR_016''])]
   \<and> hd (snd (write_to_zarr quiet_libs Map.empty (example_da\<lparr>da_coords := []\<rparr>)
          ''/work/rss.zarr''))
     \<in> set (snd (write_to_zarr quiet_libs Map.empty (example_da\<lparr>da_coords := []\<rparr>)
          ''/work/rss.zarr''))
   \<and> da_coords (snd (hd (ds_data_vars (zc_dataset
         (hd (snd (write_to_zarr quiet_libs Map.empty (example_da\<lparr>da_coords := []\<rparr>)
            ''/work/rss.zarr'')))))))
       = [(''variable'', [StrValue ''0'', StrValue ''1''])]"
proof -
  let ?bare = "example_da\<lparr>da_coords := []\<rparr>"
  have fs: "(if prefix ''s3://'' ''/work/rss.zarr'' then get_s3_fs Map.empty
             else Inr (AsyncLocalFileSystem True)) = Inr (AsyncLocalFileSystem True)"
    by simp
  have e1: "fs_exists quiet_libs (AsyncLocalFileSystem True) ''/work/rss.zarr'' = Inr False"
    by (simp add: quiet_libs_def)
  have n1: "normalize_attrs quiet_libs (da_attrs example_da)
      = Inr [(''platform'', PStr ''MSG3''), (''calibrated'', PStr ''True''),
             (''orbital_parameters'', PStr ''{}'')]"
    by (simp add: quiet_libs_def example_da_def str_bool_def)
  have n2: "normalize_attrs quiet_libs (da_attrs ?bare)
      = Inr [(''platform'', PStr ''MSG3''), (''calibrated'', PStr ''True''),
             (''orbital_parameters'', PStr ''{}'')]"
    by (simp add: quiet_libs_def example_da_def str_bool_def)
  have d1: "map_of (da_sizes example_da) ''time'' \<noteq> None"
    "map_of (da_sizes example_da) ''x_geostationary'' \<noteq> None"
    "map_of (da_sizes example_da) ''y_geostationary'' \<noteq> None"
    "map_of (da_sizes example_da) ''variable'' \<noteq> None"
    by (simp_all add: example_da_def)
  have d2: "map_of (da_sizes ?bare) ''time'' \<noteq> None"
    "map_of (da_sizes ?bare) ''x_geostationary'' \<noteq> None"
    "map_of (da_sizes ?bare) ''y_geostationary'' \<noteq> None"
    "map_of (da_sizes ?bare) ''variable'' \<noteq> None"
    by (simp_all add: example_da_def)
  from write_to_zarr_variable_str [of _ quiet_libs Map.empty example_da "''/work/rss.zarr''"
      "AsyncLocalFileSystem True" False] fs e1 n1 d1
  obtain m1 where "snd (write_to_zarr quiet_libs Map.empty example_da ''/work/rss.zarr'') = [m1]"
    by auto
  then have m1: "hd (snd (write_to_zarr quiet_libs Map.empty example_da ''/work/rss.zarr''))
     \<in> set (snd (write_to_zarr quiet_libs Map.empty example_da ''/work/rss.zarr''))"
    by simp
  from write_to_zarr_variable_str [of _ quiet_libs Map.empty ?bare "''/work/rss.zarr''"
      "AsyncLocalFileSystem True" False] fs e1 n2 d2
  obtain m2 where "snd (write_to_zarr quiet_libs Map.empty ?bare ''/work/rss.zarr'') = [m2]"
    by auto
  then have m2: "hd (snd (write_to_zarr quiet_libs Map.empty ?bare ''/work/rss.zarr''))
     \<in> set (snd (write_to_zarr quiet_libs Map.empty ?bare ''/work/rss.zarr''))"
    by simp
  have c1: "da_coords (snd (hd (ds_data_vars (zc_dataset
         (hd (snd (write_to_zarr quiet_libs Map.empty example_da ''/work/rss.zarr'')))))))
       = [(''variable'', [StrValue ''VIS006'', StrValue ''IR_016''])]"
    by (simp add: run_defs)
  have c2: "da_coords (snd (hd (ds_data_vars (zc_dataset
         (hd (snd (write_to_zarr quiet_libs Map.empty ?bare ''/work/rss.zarr'')))))))
       = [(''variable'', [StrValue ''0'', StrValue ''1''])]"
    by (simp add: run_defs numeral_2_eq_2 decimal.simps)
  have c0: "da_coords example_da = [(''variable'', [StrValue ''VIS006'', BytesValue ''IR_016''])]"
    by (simp add: example_da_def)
  from m1 c0 c1 m2 c2 show ?thesis by simp
qed

text \<open>
  C2, as the code has it. Once the filesystem is resolved and \<open>fs.exists\<close> has answered:
  an exception the attribute normalization raises reaches the caller as it is, and no
  \<open>to_zarr\<close> call is made; when the normalization returns, an exception the chunking
  raises reaches the caller as an \<open>OSError\<close> whose text holds the path and the text of
  that exception, and whose cause it is, and no \<open>to_zarr\<close> call is made; when the
  chunking returns too, exactly one \<open>to_zarr\<close> call is made, and an exception it raises
  reaches the caller as such an \<open>OSError\<close>, while the function returns when it raises
  none.
\<close>

theorem write_to_zarr_failures:
  assumes fs: "(if prefix ''s3://'' path then get_s3_fs env else Inr (AsyncLocalFileSystem True))
                 = Inr fs"
    and ex: "fs_exists L fs path = Inr ex"
  shows "(\<forall>e. normalize_attrs L (da_attrs da) = Inl e \<longrightarrow>
            write_to_zarr L env da path = (Inl e, []))
    \<and> (\<forall>attrs' cause. normalize_attrs L (da_attrs da) = Inr attrs'
          \<and> da_chunk [(''time'', 1), (''x_geostationary'', - 1), (''y_geostationary'', - 1),
                       (''variable'', 1)] (da\<lparr>da_attrs := attrs'\<rparr>) = Inl cause \<longrightarrow>
          write_to_zarr L env da path =
            (Inl (Exn ''OSError''
                    (''Error writing dataset to zarr store '' @ path @ '': '' @ exn_text cause)
                    (Some cause)), []))
    \<and> (\<forall>attrs' da1. normalize_attrs L (da_attrs da) = Inr attrs'
          \<and> da_chunk [(''time'', 1), (''x_geostationary'', - 1), (''y_geostationary'', - 1),
                       (''variable'', 1)] (da\<lparr>da_attrs := attrs'\<rparr>) = Inr da1 \<longrightarrow>
          (\<exists>call. snd (write_to_zarr L env da path) = [call]
             \<and> fst (write_to_zarr L env da path) =
                 (case to_zarr L call of
                    Some cause \<Rightarrow>
                      Inl (Exn ''OSError''
                             (''Error writing dataset to zarr store '' @ path @ '': ''
                              @ exn_text cause)
                             (Some cause))
                  | None \<Rightarrow> Inr ())))"
proof (intro conjI allI impI)
  fix e assume "normalize_attrs L (da_attrs da) = Inl e"
  with fs ex show "write_to_zarr L env da path = (Inl e, [])"
    by (simp add: write_to_zarr_def)
next
  fix attrs' cause
  assume a: "normalize_attrs L (da_attrs da) = Inr attrs'
          \<and> da_chunk [(''time'', 1), (''x_geostationary'', - 1), (''y_geostationary'', - 1),
                       (''variable'', 1)] (da\<lparr>da_attrs := attrs'\<rparr>) = Inl cause"
  then have norm: "normalize_attrs L (da_attrs da) = Inr attrs'"
    and ch: "da_chunk [(''time'', 1), (''x_geostationary'', - 1), (''y_geostationary'', - 1),
                       (''variable'', 1)] (da\<lparr>da_attrs := attrs'\<rparr>) = Inl cause"
    by simp_all
  show "write_to_zarr L env da path =
            (Inl (Exn ''OSError''
                    (''Error writing dataset to zarr store '' @ path @ '': '' @ exn_text cause)
                    (Some cause)), [])"
    unfolding write_to_zarr_normalized [OF fs ex norm] write_body_not_chunked [OF ch]
    by simp
next
  fix attrs' da1
  assume a: "normalize_attrs L (da_attrs da) = Inr attrs'
          \<and> da_chunk [(''time'', 1), (''x_geostationary'', - 1), (''y_geostationary'', - 1),
                       (''variable'', 1)] (da\<lparr>da_attrs := attrs'\<rparr>) = Inr da1"
  then have norm: "normalize_attrs L (da_attrs da) = Inr attrs'"
    and ch: "da_chunk [(''time'', 1), (''x_geostationary'', - 1), (''y_geostationary'', - 1),
                       (''variable'', 1)] (da\<lparr>da_attrs := attrs'\<rparr>) = Inr da1"
    by simp_all
  let ?mode = "if ex then ''a'' else ''w''"
  let ?kw = "if ex then \<lparr>kw_append_dim = Some ''time'', kw_encoding = None\<rparr>
           else \<lparr>kw_append_dim = None,
                 kw_encoding = Some [(''time'', [(''units'', ''nanoseconds since 1970-01-01'')])]\<rparr>"
  from write_body_chunked [OF ch, of fs path ?mode ?kw L] obtain call where
    b: "write_body L fs path ?mode ?kw (da\<lparr>da_attrs := attrs'\<rparr>) =
               (case to_zarr L call of Some e \<Rightarrow> (Inl e, [call]) | None \<Rightarrow> (Inr (), [call]))"
    by blast
  note w = write_to_zarr_normalized [OF fs ex norm]
  have "snd (write_to_zarr L env da path) = [call]"
    unfolding w b by (simp split: option.splits)
  moreover have "fst (write_to_zarr L env da path) =
          (case to_zarr L call of
             Some cause \<Rightarrow>
               Inl (Exn ''OSError''
                      (''Error writing dataset to zarr store '' @ path @ '': '' @ exn_text cause)
                      (Some cause))
           | None \<Rightarrow> Inr ())"
    unfolding w b by (simp split: option.splits)
  ultimately show "\<exists>call. snd (write_to_zarr L env da path) = [call]
             \<and> fst (write_to_zarr L env da path) =
                 (case to_zarr L call of
                    Some cause \<Rightarrow>
                      Inl (Exn ''OSError''
                             (''Error writing dataset to zarr store '' @ path @ '': ''
                              @ exn_text cause)
                             (Some cause))
                  | None \<Rightarrow> Inr ())"
    by blast
qed

theorem write_to_zarr_failures_witness:
  "write_to_zarr
      (quiet_libs\<lparr>area_dump := \<lambda>a. Inl (Exn ''ValueError'' ''no projection'' None)\<rparr>)
      Map.empty (example_da\<lparr>da_attrs := [(''area'', PArea ''msg_seviri_rss_3km'')]\<rparr>)
      ''/work/rss.zarr''
    = (Inl (Exn ''ValueError'' ''no projection'' None), [])
   \<and> (\<exists>cause.
        da_chunk [(''time'', 1), (''x_geostationary'', - 1), (''y_geostationary'', - 1),
                  (''variable'', 1)]
          (example_da\<lparr>da_attrs := [(''platform'', PStr ''MSG3'')],
                      da_sizes := [(''time'', 1), (''variable'', 2)]\<rparr>) = Inl cause
        \<and> exn_class cause = ''ValueError''
        \<and> write_to_zarr quiet_libs Map.empty
            (example_da\<lparr>da_attrs := [(''platform'', PStr ''MSG3'')],
                        da_sizes := [(''time'', 1), (''variable'', 2)]\<rparr>) ''/work/rss.zarr''
          = (Inl (Exn ''OSError''
                    (''Error writing dataset to zarr store /work/rss.zarr: '' @ exn_text cause)
                    (Some cause)), []))
   \<and> fst (write_to_zarr
        (quiet_libs\<lparr>to_zarr := \<lambda>c. Some (Exn ''PermissionError'' ''denied'' None)\<rparr>)
        Map.empty (example_da\<lparr>da_attrs := [(''platform'', PStr ''MSG3'')]\<rparr>) ''/work/rss.zarr'')
    = Inl (Exn ''OSError'' ''Error writing dataset to zarr store /work/rss.zarr: denied''
             (Some (Exn ''PermissionError'' ''denied'' None)))
   \<and> length (snd (write_to_zarr
        (quiet_libs\<lparr>to_zarr := \<lambda>c. Some (Exn ''PermissionError'' ''denied'' None)\<rparr>)
        Map.empty (example_da\<lparr>da_attrs := [(''platform'', PStr ''MSG3'')]\<rparr>) ''/work/rss.zarr''))
       = 1
   \<and> fst (write_to_zarr quiet_libs Map.empty
        (example_da\<lparr>da_attrs := [(''platform'', PStr ''MSG3'')]\<rparr>) ''/work/rss.zarr'')
    = Inr ()"
proof -
  let ?F = "quiet_libs\<lparr>area_dump := \<lambda>a. Inl (Exn ''ValueError'' ''no projection'' None)\<rparr>"
  let ?Z = "quiet_libs\<lparr>to_zarr := \<lambda>c. Some (Exn ''PermissionError'' ''denied'' None)\<rparr>"
  let ?plain = "example_da\<lparr>da_attrs := [(''platform'', PStr ''MSG3'')]\<rparr>"
  let ?short = "example_da\<lparr>da_attrs := [(''platform'', PStr ''MSG3'')],
                      da_sizes := [(''time'', 1), (''variable'', 2)]\<rparr>"
  let ?spec = "[(''time'', 1 :: int), (''x_geostationary'', - 1), (''y_geostationary'', - 1),
                  (''variable'', 1)]"
  have fs: "(if prefix ''s3://'' ''/work/rss.zarr'' then get_s3_fs Map.empty
             else Inr (AsyncLocalFileSystem True)) = Inr (AsyncLocalFileSystem True)"
    by simp
  have eF: "fs_exists ?F (AsyncLocalFileSystem True) ''/work/rss.zarr'' = Inr False"
    by (simp add: quiet_libs_def)
  have eQ: "fs_exists quiet_libs (AsyncLocalFileSystem True) ''/work/rss.zarr'' = Inr False"
    by (simp add: quiet_libs_def)
  have eZ: "fs_exists ?Z (AsyncLocalFileSystem True) ''/work/rss.zarr'' = Inr False"
    by (simp add: quiet_libs_def)
  have nF: "normalize_attrs ?F
      (da_attrs (example_da\<lparr>da_attrs := [(''area'', PArea ''msg_seviri_rss_3km'')]\<rparr>))
      = Inl (Exn ''ValueError'' ''no projection'' None)"
    by simp
  have r1: "write_to_zarr ?F Map.empty
      (example_da\<lparr>da_attrs := [(''area'', PArea ''msg_seviri_rss_3km'')]\<rparr>) ''/work/rss.zarr''
    = (Inl (Exn ''ValueError'' ''no projection'' None), [])"
    using write_to_zarr_failures [OF fs eF] nF by blast
  have nS: "normalize_attrs quiet_libs (da_attrs ?short) = Inr [(''platform'', PStr ''MSG3'')]"
    by simp
  obtain cause where cS: "da_chunk ?spec ?short = Inl cause"
    and cls: "exn_class cause = ''ValueError''"
    by (simp add: da_chunk_def example_da_def)
  from cS have cS': "da_chunk ?spec (?short\<lparr>da_attrs := [(''platform'', PStr ''MSG3'')]\<rparr>)
      = Inl cause"
    by (simp add: example_da_def)
  note t2 = write_to_zarr_failures [OF fs eQ, of ?short, THEN conjunct2, THEN conjunct1,
      rule_format, of "[(''platform'', PStr ''MSG3'')]" cause]
  have r2: "write_to_zarr quiet_libs Map.empty ?short ''/work/rss.zarr''
          = (Inl (Exn ''OSError''
                    (''Error writing dataset to zarr store /work/rss.zarr: '' @ exn_text cause)
                    (Some cause)), [])"
    using t2 [OF conjI [OF nS cS']] by simp
  have nP: "normalize_attrs ?Z (da_attrs ?plain) = Inr [(''platform'', PStr ''MSG3'')]"
    "normalize_attrs quiet_libs (da_attrs ?plain) = Inr [(''platform'', PStr ''MSG3'')]"
    by simp_all
  have "\<forall>(dim, c) \<in> set ?spec. map_of (da_sizes ?plain) dim \<noteq> None"
    by (simp add: example_da_def)
  from da_chunk_total [OF this] obtain da1 where cP: "da_chunk ?spec ?plain = Inr da1"
    by blast
  then have cP': "da_chunk ?spec (?plain\<lparr>da_attrs := [(''platform'', PStr ''MSG3'')]\<rparr>)
      = Inr da1"
    by simp
  note t3 = write_to_zarr_failures [OF fs eZ, of ?plain, THEN conjunct2, THEN conjunct2,
      rule_format, of "[(''platform'', PStr ''MSG3'')]" da1]
  from t3 [OF conjI [OF nP(1) cP']] obtain call where
    "snd (write_to_zarr ?Z Map.empty ?plain ''/work/rss.zarr'') = [call]"
    "fst (write_to_zarr ?Z Map.empty ?plain ''/work/rss.zarr'') =
        (case to_zarr ?Z call of
           Some cause \<Rightarrow>
             Inl (Exn ''OSError''
                    (''Error writing dataset to zarr store '' @ ''/work/rss.zarr'' @ '': ''
                     @ exn_text cause)
                    (Some cause))
         | None \<Rightarrow> Inr ())"
    by blast
  then have r3: "fst (write_to_zarr ?Z Map.empty ?plain ''/work/rss.zarr'')
        = Inl (Exn ''OSError'' ''Error writing dataset to zarr store /work/rss.zarr: denied''
             (Some (Exn ''PermissionError'' ''denied'' None)))"
    and r4: "length (snd (write_to_zarr ?Z Map.empty ?plain ''/work/rss.zarr'')) = 1"
    by simp_all
  note t4 = write_to_zarr_failures [OF fs eQ, of ?plain, THEN conjunct2, THEN conjunct2,
      rule_format, of "[(''platform'', PStr ''MSG3'')]" da1]
  from t4 [OF conjI [OF nP(2) cP']] obtain call' where
    "fst (write_to_zarr quiet_libs Map.empty ?plain ''/work/rss.zarr'') =
        (case to_zarr quiet_libs call' of
           Some cause \<Rightarrow>
             Inl (Exn ''OSError''
                    (''Error writing dataset to zarr store '' @ ''/work/rss.zarr'' @ '': ''
                     @ exn_text cause)
                    (Some cause))
         | None \<Rightarrow> Inr ())"
    by blast
  then have r5: "fst (write_to_zarr quiet_libs Map.empty ?plain ''/work/rss.zarr'') = Inr ()"
    by (simp add: quiet_libs_def)
  from r1 cS cls r2 r3 r4 r5 show ?thesis by blast
qed

text \<open>
  C2 as stated fails: an exception of \<open>yaml.dump\<close> during the attribute normalization
  is not wrapped. It is not an \<open>OSError\<close>, its text does not hold the path and it has no
  cause.
\<close>

theorem normalization_failure_not_wrapped:
  "write_to_zarr
      (quiet_libs\<lparr>yaml_dump := \<lambda>v. Inl (Exn ''RepresenterError'' ''cannot represent an object'' None)\<rparr>)
      Map.empty example_da ''/work/rss.zarr''
    = (Inl (Exn ''RepresenterError'' ''cannot represent an object'' None), [])"
  by (simp add: run_defs)

section \<open>Properties of \<open>create_latest_zip\<close>\<close>

lemma rsplit1_nonempty: "rsplit1 sep s \<noteq> []"
  by (simp add: rsplit1_def)









lemmas zip_defs = create_latest_zip_def rsplit1_def getitem0_def zip_error_def quiet_libs_def
  raise_from_def OSError_def Let_def




text \<open>
  C9 fails for a store path without \<open>/\<close> and for one that ends with \<open>/\<close>:
  \<open>zarr_path.rsplit("/", 1)[0]\<close> is then the store path itself, so the archive of the
  store \<open>store.zarr\<close> is opened at \<open>store.zarr/latest.zarr.zip\<close> and the archive of
  \<open>/work/rss.zarr/\<close> at \<open>/work/rss.zarr/latest.zarr.zip\<close>, inside the store and not
  beside it, while the archive of \<open>/work/rss.zarr\<close> is opened at
  \<open>/work/latest.zarr.zip\<close>.
\<close>

theorem bare_name_archive_inside_store:
  "rsplit1 CHR ''/'' ''store.zarr'' = [''store.zarr'']
   \<and> create_latest_zip quiet_libs Map.empty ''store.zarr''
     = (Inr ''store.zarr/latest.zarr.zip'',
        [OpenWb ''store.zarr/latest.zarr.zip'',
         WriteBlock ''store.zarr/latest.zarr.zip'' [80, 75, 5, 6],
         CloseFile ''store.zarr/latest.zarr.zip''])
   \<and> rsplit1 CHR ''/'' ''/work/rss.zarr/'' = [''/work/rss.zarr'', '''']
   \<and> create_latest_zip quiet_libs Map.empty ''/work/rss.zarr/''
     = (Inr ''/work/rss.zarr/latest.zarr.zip'',
        [OpenWb ''/work/rss.zarr/latest.zarr.zip'',
         WriteBlock ''/work/rss.zarr/latest.zarr.zip'' [80, 75, 5, 6],
         CloseFile ''/work/rss.zarr/latest.zarr.zip''])
   \<and> fst (create_latest_zip quiet_libs Map.empty ''/work/rss.zarr'')
     = Inr ''/work/latest.zarr.zip''"
  by (simp add: zip_defs copyfileobj.simps)

end
